theory Spec2Isabelle
  imports Main "HOL-Library.Sublist"
begin

section \<open>Data model of main.js\<close>

text \<open>
  A JavaScript value that is a string, \<^verbatim>\<open>null\<close> or \<^verbatim>\<open>undefined\<close> is a
  \<open>string option\<close>: \<open>None\<close> stands for both \<^verbatim>\<open>null\<close> and \<^verbatim>\<open>undefined\<close>, which the
  loose comparison \<^verbatim>\<open>!=\<close> of the source does not tell apart, and two strings are
  \<^verbatim>\<open>!=\<close> exactly when they are different strings. A \<^verbatim>\<open>Date\<close> is its number of
  milliseconds since the epoch.
\<close>

type_synonym jsstr = "string option"
type_synonym jsdate = int

text \<open>The objects \<^verbatim>\<open>{ title: String, url: String }\<close> of the schemas (image, source).\<close>

record titled =
  o_title :: jsstr
  o_url :: jsstr

text \<open>An element of \<^verbatim>\<open>enclosures: [{ url: String, type: String, length: String }]\<close>.\<close>

record enclosure =
  e_url :: jsstr
  e_type :: jsstr
  e_length :: jsstr

text \<open>
  The fields that the parsed feed metadata and a parsed article have in common, and that
  both schemas store. The parser always sets \<^verbatim>\<open>image\<close> to an object and
  \<^verbatim>\<open>categories\<close> to an array, and a nested path of a stored document is always an
  object, so neither is optional.
\<close>

record item =
  title :: jsstr
  description :: jsstr
  link :: jsstr
  date :: "jsdate option"
  pubDate :: "jsdate option"
  author :: jsstr
  image_obj :: titled
  categories :: "string list"

text \<open>The parsed feed metadata (the argument of the parser's \<^verbatim>\<open>meta\<close> event).\<close>

record meta = item +
  xmlUrl :: jsstr
  language :: jsstr
  favicon :: jsstr
  copyright :: jsstr
  generator :: jsstr

text \<open>A document of \<^verbatim>\<open>feedSchema\<close>; \<open>fid\<close> is its \<^verbatim>\<open>_id\<close>, the feed's URL.\<close>

record feedDoc = meta +
  fid :: string
  lastModified :: jsstr

text \<open>A parsed article (what \<^verbatim>\<open>stream.read()\<close> returns).\<close>

record article = item +
  origLink :: jsstr
  guid :: jsstr
  comments :: jsstr
  source :: titled
  enclosures :: "enclosure list"

text \<open>A document of \<^verbatim>\<open>articleSchema\<close>.\<close>

record articleDoc = article +
  feed :: jsstr
  savedAt :: jsdate

text \<open>The two collections of the database, each in insertion order.\<close>

record store =
  feeds :: "feedDoc list"
  articles :: "articleDoc list"

text \<open>
  What the storage calls made for one parser event report: whether \<^verbatim>\<open>findOne\<close> and
  \<^verbatim>\<open>save\<close> call back with an error, and the clock read by \<^verbatim>\<open>new Date()\<close>.
\<close>

record io =
  findErr :: bool
  saveErr :: bool
  clock :: jsdate

subsection \<open>JSON.stringify on an array of strings\<close>

definition hexdigit :: "nat \<Rightarrow> char" where
  "hexdigit n = ''0123456789abcdef'' ! (n mod 16)"

definition json_escape :: "char \<Rightarrow> string" where
  "json_escape c =
     (if c = CHR 0x22 then [CHR 0x5C, CHR 0x22]
      else if c = CHR 0x5C then [CHR 0x5C, CHR 0x5C]
      else if c = CHR 0x08 then [CHR 0x5C, CHR ''b'']
      else if c = CHR 0x09 then [CHR 0x5C, CHR ''t'']
      else if c = CHR 0x0A then [CHR 0x5C, CHR ''n'']
      else if c = CHR 0x0C then [CHR 0x5C, CHR ''f'']
      else if c = CHR 0x0D then [CHR 0x5C, CHR ''r'']
      else if (of_char c :: nat) < 32
        then [CHR 0x5C, CHR ''u'', CHR ''0'', CHR ''0'',
              hexdigit ((of_char c :: nat) div 16), hexdigit (of_char c :: nat)]
      else [c])"

definition json_quote :: "string \<Rightarrow> string" where
  "json_quote s = CHR 0x22 # concat (map json_escape s) @ [CHR 0x22]"

primrec join_with :: "string \<Rightarrow> string list \<Rightarrow> string" where
  "join_with sep [] = []"
| "join_with sep (x # xs) = (if xs = [] then x else x @ sep @ join_with sep xs)"

definition JSON_stringify :: "string list \<Rightarrow> string" where
  "JSON_stringify xs = ''['' @ join_with '','' (map json_quote xs) @ '']''"

section \<open>Reconciliation of the feed metadata\<close>

text \<open>
  \<^verbatim>\<open>function feedRequiresUpdate(feedDocument, meta, lastModified)\<close>: the conjunction of
  thirteen \<^verbatim>\<open>!=\<close> comparisons.
\<close>

definition feedRequiresUpdate :: "feedDoc \<Rightarrow> meta \<Rightarrow> jsstr \<Rightarrow> bool" where
  "feedRequiresUpdate feedDocument m lastModified' =
     (title feedDocument \<noteq> title m \<and>
      description feedDocument \<noteq> description m \<and>
      link feedDocument \<noteq> link m \<and>
      xmlUrl feedDocument \<noteq> xmlUrl m \<and>
      author feedDocument \<noteq> author m \<and>
      language feedDocument \<noteq> language m \<and>
      o_title (image_obj feedDocument) \<noteq> o_title (image_obj m) \<and>
      o_url (image_obj feedDocument) \<noteq> o_url (image_obj m) \<and>
      favicon feedDocument \<noteq> favicon m \<and>
      copyright feedDocument \<noteq> copyright m \<and>
      generator feedDocument \<noteq> generator m \<and>
      JSON_stringify (categories feedDocument) \<noteq> JSON_stringify (categories m) \<and>
      lastModified feedDocument \<noteq> lastModified')"

text \<open>The fourteen assignments in the body of \<^verbatim>\<open>updateFeedMeta\<close>.\<close>

definition assignFeedFields :: "feedDoc \<Rightarrow> meta \<Rightarrow> jsstr \<Rightarrow> feedDoc" where
  "assignFeedFields feedDocument m lastModified' =
     feedDocument\<lparr>title := title m, description := description m, link := link m,
       xmlUrl := xmlUrl m, date := date m, pubDate := pubDate m, author := author m,
       language := language m, image_obj := image_obj m, favicon := favicon m,
       copyright := copyright m, generator := generator m, categories := categories m,
       lastModified := lastModified'\<rparr>"

text \<open>
  \<^verbatim>\<open>feedDocument.save\<close> of a document that the database already holds writes it over the
  document with its \<^verbatim>\<open>_id\<close>; an error is logged and nothing is written.
\<close>

primrec replace_first :: "('a \<Rightarrow> bool) \<Rightarrow> 'a \<Rightarrow> 'a list \<Rightarrow> 'a list" where
  "replace_first P y [] = []"
| "replace_first P y (x # xs) = (if P x then y # xs else x # replace_first P y xs)"

definition save_feed :: "io \<Rightarrow> feedDoc \<Rightarrow> store \<Rightarrow> store" where
  "save_feed e d s =
     (if saveErr e then s
      else s\<lparr>feeds := replace_first (\<lambda>x. fid x = fid d) d (feeds s)\<rparr>)"

text \<open>
  \<^verbatim>\<open>function updateFeedMeta(feedDocument, meta, lastModified)\<close>: three parameters.
\<close>

definition updateFeedMeta :: "io \<Rightarrow> feedDoc \<Rightarrow> meta \<Rightarrow> jsstr \<Rightarrow> store \<Rightarrow> store" where
  "updateFeedMeta e feedDocument m lastModified' s =
     (if feedRequiresUpdate feedDocument m lastModified'
      then save_feed e (assignFeedFields feedDocument m lastModified') s
      else s)"

definition createFeedDocument :: "meta \<Rightarrow> string \<Rightarrow> jsstr \<Rightarrow> feedDoc" where
  "createFeedDocument m url lastModified' =
     \<lparr>title = title m, description = description m, link = link m, date = date m,
      pubDate = pubDate m, author = author m, image_obj = image_obj m,
      categories = categories m, xmlUrl = xmlUrl m, language = language m,
      favicon = favicon m, copyright = copyright m, generator = generator m,
      fid = url, lastModified = lastModified'\<rparr>"

definition saveFeedMeta :: "io \<Rightarrow> meta \<Rightarrow> string \<Rightarrow> jsstr \<Rightarrow> store \<Rightarrow> store" where
  "saveFeedMeta e m url lastModified' s =
     (if saveErr e then s
      else s\<lparr>feeds := feeds s @ [createFeedDocument m url lastModified']\<rparr>)"

text \<open>
  \<^verbatim>\<open>function saveOrUpdateFeedMeta(meta, url, lastModified)\<close>. Its last branch is the call
  \<^verbatim>\<open>updateFeedMeta(feedDocument, meta, url, lastModified)\<close>: four arguments for the
  three parameters above, so the parameter \<^verbatim>\<open>lastModified\<close> of \<^verbatim>\<open>updateFeedMeta\<close>
  receives \<^verbatim>\<open>url\<close>, and the fourth argument is dropped.
\<close>

definition saveOrUpdateFeedMeta :: "io \<Rightarrow> meta \<Rightarrow> string \<Rightarrow> jsstr \<Rightarrow> store \<Rightarrow> store" where
  "saveOrUpdateFeedMeta e m url lastModified' s =
     (if findErr e then s
      else case find (\<lambda>d. fid d = url) (feeds s) of
             None \<Rightarrow> saveFeedMeta e m url lastModified' s
           | Some feedDocument \<Rightarrow> updateFeedMeta e feedDocument m (Some url) s)"

section \<open>Reconciliation of an article\<close>

text \<open>
  \<^verbatim>\<open>articleDocument.enclosures\<close> and \<^verbatim>\<open>article.enclosures\<close> are arrays. The source
  reads \<^verbatim>\<open>.url\<close>, \<^verbatim>\<open>.type\<close> and \<^verbatim>\<open>.length\<close> of the array itself, not of its
  elements: an array has no property \<^verbatim>\<open>url\<close> or \<^verbatim>\<open>type\<close>, so both reads give
  \<^verbatim>\<open>undefined\<close>, and \<^verbatim>\<open>length\<close> is the number of elements.
\<close>

definition array_url :: "enclosure list \<Rightarrow> jsstr" where
  "array_url es = None"

definition array_type :: "enclosure list \<Rightarrow> jsstr" where
  "array_type es = None"

definition array_length :: "enclosure list \<Rightarrow> nat" where
  "array_length es = length es"

text \<open>\<^verbatim>\<open>function articleRequiresUpdate(articleDocument, article)\<close>: fifteen comparisons.\<close>

definition articleRequiresUpdate :: "articleDoc \<Rightarrow> article \<Rightarrow> bool" where
  "articleRequiresUpdate articleDocument a =
     (title articleDocument \<noteq> title a \<and>
      description articleDocument \<noteq> description a \<and>
      link articleDocument \<noteq> link a \<and>
      origLink articleDocument \<noteq> origLink a \<and>
      author articleDocument \<noteq> author a \<and>
      guid articleDocument \<noteq> guid a \<and>
      comments articleDocument \<noteq> comments a \<and>
      o_title (image_obj articleDocument) \<noteq> o_title (image_obj a) \<and>
      o_url (image_obj articleDocument) \<noteq> o_url (image_obj a) \<and>
      JSON_stringify (categories articleDocument) \<noteq> JSON_stringify (categories a) \<and>
      o_title (source articleDocument) \<noteq> o_title (source a) \<and>
      o_url (source articleDocument) \<noteq> o_url (source a) \<and>
      array_url (enclosures articleDocument) \<noteq> array_url (enclosures a) \<and>
      array_type (enclosures articleDocument) \<noteq> array_type (enclosures a) \<and>
      array_length (enclosures articleDocument) \<noteq> array_length (enclosures a))"

text \<open>
  The assignments in the body of \<^verbatim>\<open>updateArticle\<close>. It assigns thirteen properties:
  title, description, link, xmlUrl, date, pubDate, author, language, image, favicon,
  copyright, generator and categories. Five of them (xmlUrl, language, favicon,
  copyright, generator) are not paths of \<^verbatim>\<open>articleSchema\<close>, so the stored document
  does not hold them; the other eight are the fields of \<open>item\<close>.
\<close>

definition assignArticleFields :: "articleDoc \<Rightarrow> article \<Rightarrow> articleDoc" where
  "assignArticleFields articleDocument a =
     articleDocument\<lparr>title := title a, description := description a, link := link a,
       date := date a, pubDate := pubDate a, author := author a,
       image_obj := image_obj a, categories := categories a\<rparr>"

text \<open>
  The first position of a list whose element satisfies \<open>P\<close>: the document that
  \<^verbatim>\<open>Article.findOne\<close> returns, named by its place in the collection, which is also
  where \<^verbatim>\<open>articleDocument.save\<close> writes it back.
\<close>

primrec find_pos :: "('a \<Rightarrow> bool) \<Rightarrow> 'a list \<Rightarrow> nat option" where
  "find_pos P [] = None"
| "find_pos P (x # xs) = (if P x then Some 0 else map_option Suc (find_pos P xs))"

definition updateArticle :: "io \<Rightarrow> nat \<Rightarrow> articleDoc \<Rightarrow> article \<Rightarrow> store \<Rightarrow> store" where
  "updateArticle e i articleDocument a s =
     (if articleRequiresUpdate articleDocument a
      then (if saveErr e then s
            else s\<lparr>articles := (articles s)[i := assignArticleFields articleDocument a]\<rparr>)
      else s)"

definition createArticleDocument :: "article \<Rightarrow> string \<Rightarrow> jsdate \<Rightarrow> articleDoc" where
  "createArticleDocument a url now =
     \<lparr>title = title a, description = description a, link = link a, date = date a,
      pubDate = pubDate a, author = author a, image_obj = image_obj a,
      categories = categories a, origLink = origLink a, guid = guid a,
      comments = comments a, source = source a, enclosures = enclosures a,
      feed = Some url, savedAt = now\<rparr>"

definition saveArticle :: "io \<Rightarrow> article \<Rightarrow> string \<Rightarrow> store \<Rightarrow> store" where
  "saveArticle e a url s =
     (if saveErr e then s
      else s\<lparr>articles := articles s @ [createArticleDocument a url (clock e)]\<rparr>)"

definition saveOrUpdateArticle :: "io \<Rightarrow> article \<Rightarrow> string \<Rightarrow> store \<Rightarrow> store" where
  "saveOrUpdateArticle e a url s =
     (if findErr e then s
      else case find_pos (\<lambda>d. guid d = guid a \<and> feed d = Some url) (articles s) of
             None \<Rightarrow> saveArticle e a url s
           | Some i \<Rightarrow> updateArticle e i (articles s ! i) a s)"

section \<open>Fetching and parsing a feed\<close>

text \<open>The events of the parser's stream, in the order in which it emits them.\<close>

datatype event = Meta meta | Item article | ParseError string | End

record requestObject =
  req_url :: string
  req_timeout :: nat
  req_headers :: "(string \<times> string) list"

record response =
  statusCode :: nat
  headers :: "(string \<times> string) list"
  body :: string

text \<open>
  The collaborators of one call, which main.js only calls: the outcome of
  \<^verbatim>\<open>Feed.count\<close> and of the \<^verbatim>\<open>Feed.findOne\<close> that reads the stored
  \<^verbatim>\<open>lastModified\<close>, the HTTP transport (an error or a response), the encoding detector,
  the decoder of \<^verbatim>\<open>iconv\<close> (which throws on an encoding it does not know) and its
  encoder to UTF-8, the feed parser, and the storage outcome for the \<open>n\<close>-th event.
\<close>

record env =
  countErr :: bool
  lastModifiedErr :: bool
  request :: "requestObject \<Rightarrow> string + response"
  chardet_detect :: "string \<Rightarrow> string option"
  iconv_decode :: "string \<Rightarrow> string option \<Rightarrow> string + nat list"
  iconv_encode :: "nat list \<Rightarrow> string"
  feedparser :: "string \<Rightarrow> event list"
  storage :: "nat \<Rightarrow> io"

text \<open>
  What a call leaves behind: the database, how often the caller's callback ran, and the
  exception that left the call uncaught, if any.
\<close>

record outcome =
  db :: store
  called :: nat
  uncaught :: "string option"

text \<open>
  \<^verbatim>\<open>toLowerCase\<close> on a code unit below 256 and on a string of them: the letters A to
  Z, and the capital letters from 0xC0 to 0xDE, which leaves out the multiplication sign
  0xD7.
\<close>

definition lower_char :: "char \<Rightarrow> char" where
  "lower_char c =
     (let n = (of_char c :: nat) in
      if (65 \<le> n \<and> n \<le> 90) \<or> (192 \<le> n \<and> n \<le> 222 \<and> n \<noteq> 215) then char_of (n + 32)
      else c)"

definition toLowerCase :: "string \<Rightarrow> string" where
  "toLowerCase s = map lower_char s"

text \<open>
  \<^verbatim>\<open>getLastModifiedFromResponseHeaders\<close>: the loop over the header names keeps the value
  of the last header whose lower-cased name is \<^verbatim>\<open>last-modified\<close>.
\<close>

primrec lastModified_loop :: "jsstr \<Rightarrow> (string \<times> string) list \<Rightarrow> jsstr" where
  "lastModified_loop acc [] = acc"
| "lastModified_loop acc (h # hs) =
     lastModified_loop (if toLowerCase (fst h) = ''last-modified'' then Some (snd h) else acc) hs"

definition getLastModifiedFromResponseHeaders :: "(string \<times> string) list \<Rightarrow> jsstr" where
  "getLastModifiedFromResponseHeaders hs = lastModified_loop None hs"

text \<open>
  \<^verbatim>\<open>getBufferAsUtf8Buffer\<close>. There is no \<^verbatim>\<open>try\<close> in it: what \<^verbatim>\<open>iconv.decode\<close> throws
  leaves the function (\<open>Inl\<close>).
\<close>

definition getBufferAsUtf8Buffer :: "env \<Rightarrow> string \<Rightarrow> string + string" where
  "getBufferAsUtf8Buffer ev buffer =
     (let encoding = chardet_detect ev buffer in
      if encoding \<noteq> Some ''UTF-8''
      then (case iconv_decode ev buffer encoding of
              Inl thrown \<Rightarrow> Inl thrown
            | Inr decodedString \<Rightarrow> Inr (iconv_encode ev decodedString))
      else Inr buffer)"

text \<open>
  The handlers that \<^verbatim>\<open>handleResponse\<close> registers on the parser, run over the events in
  order: \<^verbatim>\<open>error\<close> only logs, \<^verbatim>\<open>meta\<close> reconciles the feed, every article read
  on \<^verbatim>\<open>readable\<close> is reconciled, and \<^verbatim>\<open>end\<close> calls the callback.
\<close>

primrec handleEvents ::
  "(nat \<Rightarrow> io) \<Rightarrow> string \<Rightarrow> jsstr \<Rightarrow> event list \<Rightarrow> store \<Rightarrow> nat \<Rightarrow> store \<times> nat" where
  "handleEvents st url lastModified' [] s c = (s, c)"
| "handleEvents st url lastModified' (x # xs) s c =
     (case x of
        ParseError err \<Rightarrow> handleEvents (\<lambda>n. st (Suc n)) url lastModified' xs s c
      | Meta m \<Rightarrow>
          handleEvents (\<lambda>n. st (Suc n)) url lastModified' xs
            (saveOrUpdateFeedMeta (st 0) m url lastModified' s) c
      | Item a \<Rightarrow>
          handleEvents (\<lambda>n. st (Suc n)) url lastModified' xs
            (saveOrUpdateArticle (st 0) a url s) c
      | End \<Rightarrow> handleEvents (\<lambda>n. st (Suc n)) url lastModified' xs s (Suc c))"

text \<open>
  \<^verbatim>\<open>function handleResponse(url, error, response, body, callback)\<close>; the transport's
  error and response are the two cases of a sum, and the body is the response's.
\<close>

definition handleResponse :: "env \<Rightarrow> string \<Rightarrow> string + response \<Rightarrow> store \<Rightarrow> outcome" where
  "handleResponse ev url r s =
     (case r of
        Inl error \<Rightarrow> \<lparr>db = s, called = 0, uncaught = None\<rparr>
      | Inr resp \<Rightarrow>
          if statusCode resp = 200
          then (let lastModified' = getLastModifiedFromResponseHeaders (headers resp) in
                case getBufferAsUtf8Buffer ev (body resp) of
                  Inl thrown \<Rightarrow> \<lparr>db = s, called = 0, uncaught = Some thrown\<rparr>
                | Inr body' \<Rightarrow>
                    (case handleEvents (storage ev) url lastModified' (feedparser ev body') s 0 of
                       (s', c) \<Rightarrow> \<lparr>db = s', called = c, uncaught = None\<rparr>))
          else if statusCode resp = 304
          then \<lparr>db = s, called = 0, uncaught = None\<rparr>
          else \<lparr>db = s, called = 0, uncaught = None\<rparr>)"

definition timeoutInMs :: nat where
  "timeoutInMs = 10000"

definition createDefaultRequest :: "string \<Rightarrow> requestObject" where
  "createDefaultRequest url = \<lparr>req_url = url, req_timeout = timeoutInMs, req_headers = []\<rparr>"

text \<open>
  The request that \<^verbatim>\<open>requestAndParseFeed\<close> sends: the default request, with the header
  \<^verbatim>\<open>If-Modified-Since\<close> when the feed is stored with a \<^verbatim>\<open>lastModified\<close> that is not
  \<^verbatim>\<open>null\<close>. An error of \<^verbatim>\<open>findOne\<close> is logged and the request is sent all the same.
\<close>

definition requestFor :: "env \<Rightarrow> string \<Rightarrow> store \<Rightarrow> requestObject" where
  "requestFor ev url s =
     (if lastModifiedErr ev then createDefaultRequest url
      else case find (\<lambda>d. fid d = url) (feeds s) of
             None \<Rightarrow> createDefaultRequest url
           | Some partialFeedDocument \<Rightarrow>
               (case lastModified partialFeedDocument of
                  None \<Rightarrow> createDefaultRequest url
                | Some lm \<Rightarrow>
                    (createDefaultRequest url)\<lparr>req_headers := [(''If-Modified-Since'', lm)]\<rparr>))"

definition requestAndParseFeed :: "env \<Rightarrow> string \<Rightarrow> store \<Rightarrow> outcome" where
  "requestAndParseFeed ev url s =
     handleResponse ev url (request ev (requestFor ev url s)) s"

text \<open>\<^verbatim>\<open>function addFeed(url, callback)\<close>.\<close>

definition addFeed :: "env \<Rightarrow> string \<Rightarrow> store \<Rightarrow> outcome" where
  "addFeed ev url s =
     (if countErr ev then \<lparr>db = s, called = 0, uncaught = None\<rparr>
      else (let count = length (filter (\<lambda>d. fid d = url) (feeds s)) in
            if count = 0 then requestAndParseFeed ev url s
            else if count = 1 then \<lparr>db = s, called = 0, uncaught = None\<rparr>
            else \<lparr>db = s, called = 0, uncaught = None\<rparr>))"

text \<open>A sequence of \<^verbatim>\<open>addFeed\<close> calls, each with its own collaborators, one after the other.\<close>

primrec addFeeds :: "(env \<times> string) list \<Rightarrow> store \<Rightarrow> store" where
  "addFeeds [] s = s"
| "addFeeds (c # cs) s = addFeeds cs (db (addFeed (fst c) (snd c) s))"

section \<open>Removing old articles\<close>

text \<open>
  Local time is a collaborator: \<open>tza t True\<close> is the offset of local time from UTC, in
  milliseconds, at the instant \<open>t\<close>, and \<open>tza t False\<close> the offset at the local time
  \<open>t\<close> (the two arguments of \<^verbatim>\<open>LocalTZA\<close> in the language definition of \<^verbatim>\<open>Date\<close>).
\<close>

type_synonym zone = "jsdate \<Rightarrow> bool \<Rightarrow> int"

definition msPerDay :: int where
  "msPerDay = 86400000"

definition LocalTime :: "zone \<Rightarrow> jsdate \<Rightarrow> jsdate" where
  "LocalTime tza t = t + tza t True"

definition UTC_time :: "zone \<Rightarrow> jsdate \<Rightarrow> jsdate" where
  "UTC_time tza t = t - tza t False"

text \<open>
  \<^verbatim>\<open>oldArticleDate.setDate(oldArticleDate.getDate()-days)\<close> on \<^verbatim>\<open>new Date()\<close>: the
  local time of now, with its day of the month moved back by \<open>days\<close> and its time of day
  kept, read as a local time again. Across a change of the clock this is not \<open>days\<close>
  times 24 hours before now. The number of days is a whole number, and all times are in
  the range of \<^verbatim>\<open>Date\<close>.
\<close>

definition oldArticleDate :: "zone \<Rightarrow> jsdate \<Rightarrow> int \<Rightarrow> jsdate" where
  "oldArticleDate tza now days = UTC_time tza (LocalTime tza now - days * msPerDay)"

text \<open>
  The filter \<^verbatim>\<open>{ $lt: d }\<close> on a field holding a date: a document whose field is
  \<^verbatim>\<open>null\<close> or missing does not match.
\<close>

definition mongo_lt :: "jsdate option \<Rightarrow> jsdate \<Rightarrow> bool" where
  "mongo_lt v d = (case v of None \<Rightarrow> False | Some t \<Rightarrow> t < d)"

text \<open>
  \<^verbatim>\<open>function removeArticlesOlderThan(days)\<close>, with the time zone, the outcome of
  the storage call and the clock as arguments:
  \<^verbatim>\<open>Article.remove({ date: { $lt: oldArticleDate } }, ...)\<close>. When the storage call
  reports an error, the callback logs it and nothing is removed.
\<close>

definition removeArticlesOlderThan :: "zone \<Rightarrow> bool \<Rightarrow> jsdate \<Rightarrow> int \<Rightarrow> store \<Rightarrow> store" where
  "removeArticlesOlderThan tza removeErr now days s =
     (if removeErr then s
      else s\<lparr>articles :=
               filter (\<lambda>a. \<not> mongo_lt (date a) (oldArticleDate tza now days)) (articles s)\<rparr>)"

section \<open>Searching articles by keyword\<close>

subsection \<open>Regular expressions\<close>

text \<open>
  The pattern is built with \<^verbatim>\<open>new RegExp(..., 'i')\<close> and handed to the storage as
  the filter of three fields. A field matches when \<^verbatim>\<open>RegExp.prototype.test\<close> of the
  language is true of it. Strings are lists of code units below 256.
\<close>

text \<open>
  What a call into the language's library does: it returns a value, it throws, or this
  development does not say what it does.
\<close>

datatype 'a js = Returns 'a | Throws string | NotModelled

text \<open>
  The syntax trees of patterns: a literal character, \<^verbatim>\<open>.\<close>, the classes \<^verbatim>\<open>\s\<close>,
  \<^verbatim>\<open>\S\<close>, \<^verbatim>\<open>\d\<close>, \<^verbatim>\<open>\D\<close>, \<^verbatim>\<open>\w\<close> and \<^verbatim>\<open>\W\<close>, the assertions \<^verbatim>\<open>^\<close> and
  \<^verbatim>\<open>$\<close>, the empty pattern, a sequence, an alternative, and the quantifiers \<^verbatim>\<open>+\<close>,
  \<^verbatim>\<open>*\<close> and \<^verbatim>\<open>?\<close>.
\<close>

datatype rx =
  Lit char | Dot | Space | NotSpace | Digit | NotDigit | Word | NotWord | Bol | Eol | Eps
  | Seq rx rx | Alt rx rx | Plus rx | Star rx | Opt rx

text \<open>
  A character is a code unit below 256. With the flag \<^verbatim>\<open>i\<close>, two characters match when
  their canonical forms are equal: the upper-case form when that is one code unit (so not
  for 0xDF), which for 0xFF and 0xB5 lies above 255.
\<close>

definition canonicalize :: "char \<Rightarrow> nat" where
  "canonicalize c =
     (let n = of_char c in
      if (97 \<le> n \<and> n \<le> 122) \<or> (224 \<le> n \<and> n \<le> 254 \<and> n \<noteq> 247) then n - 32
      else if n = 255 then 376
      else if n = 181 then 924
      else n)"

definition is_space :: "char \<Rightarrow> bool" where
  "is_space c =
     (c \<in> set [CHR 0x09, CHR 0x0A, CHR 0x0B, CHR 0x0C, CHR 0x0D, CHR 0x20, CHR 0xA0])"

definition is_digit :: "char \<Rightarrow> bool" where
  "is_digit c = (48 \<le> (of_char c :: nat) \<and> (of_char c :: nat) \<le> 57)"

definition is_word :: "char \<Rightarrow> bool" where
  "is_word c =
     (let n = (of_char c :: nat) in
      (48 \<le> n \<and> n \<le> 57) \<or> (65 \<le> n \<and> n \<le> 90) \<or> n = 95 \<or> (97 \<le> n \<and> n \<le> 122))"

text \<open>
  \<open>iter k R i j\<close>: from position \<open>i\<close>, at most \<open>k\<close> steps of \<open>R\<close> lead to \<open>j\<close>.
  A repetition over a string of length \<open>n\<close> needs at most \<open>n\<close> steps that consume a
  character, and a step that consumes none leads nowhere new.
\<close>

primrec iter :: "nat \<Rightarrow> (nat \<Rightarrow> nat \<Rightarrow> bool) \<Rightarrow> nat \<Rightarrow> nat \<Rightarrow> bool" where
  "iter 0 R i j = (i = j)"
| "iter (Suc k) R i j = (i = j \<or> (\<exists>m\<in>set [i..<Suc j]. R i m \<and> iter k R m j))"

text \<open>\<open>rx_match r s i j\<close>: the pattern \<open>r\<close> matches \<open>s\<close> from position \<open>i\<close> up to \<open>j\<close>.\<close>

primrec rx_match :: "rx \<Rightarrow> string \<Rightarrow> nat \<Rightarrow> nat \<Rightarrow> bool" where
  "rx_match (Lit c) s i j = (i < length s \<and> j = Suc i \<and> canonicalize (s ! i) = canonicalize c)"
| "rx_match Dot s i j = (i < length s \<and> j = Suc i \<and> s ! i \<noteq> CHR 0x0A \<and> s ! i \<noteq> CHR 0x0D)"
| "rx_match Space s i j = (i < length s \<and> j = Suc i \<and> is_space (s ! i))"
| "rx_match NotSpace s i j = (i < length s \<and> j = Suc i \<and> \<not> is_space (s ! i))"
| "rx_match Digit s i j = (i < length s \<and> j = Suc i \<and> is_digit (s ! i))"
| "rx_match NotDigit s i j = (i < length s \<and> j = Suc i \<and> \<not> is_digit (s ! i))"
| "rx_match Word s i j = (i < length s \<and> j = Suc i \<and> is_word (s ! i))"
| "rx_match NotWord s i j = (i < length s \<and> j = Suc i \<and> \<not> is_word (s ! i))"
| "rx_match Bol s i j = (i = 0 \<and> j = 0)"
| "rx_match Eol s i j = (i = length s \<and> j = i)"
| "rx_match Eps s i j = (j = i)"
| "rx_match (Seq a b) s i j = (\<exists>m\<in>set [i..<Suc j]. rx_match a s i m \<and> rx_match b s m j)"
| "rx_match (Alt a b) s i j = (rx_match a s i j \<or> rx_match b s i j)"
| "rx_match (Plus a) s i j =
     (\<exists>m\<in>set [i..<Suc j]. rx_match a s i m \<and> iter (length s) (rx_match a s) m j)"
| "rx_match (Star a) s i j = iter (length s) (rx_match a s) i j"
| "rx_match (Opt a) s i j = (j = i \<or> rx_match a s i j)"

text \<open>A pattern is searched for anywhere in the string.\<close>

definition rx_test :: "rx \<Rightarrow> string \<Rightarrow> bool" where
  "rx_test r s =
     (\<exists>i\<in>set [0..<Suc (length s)]. \<exists>j\<in>set [i..<Suc (length s)]. rx_match r s i j)"

fun alts :: "rx list \<Rightarrow> rx" where
  "alts [] = Eps"
| "alts [r] = r"
| "alts (r # rs) = Alt r (alts rs)"

primrec seqs :: "rx list \<Rightarrow> rx" where
  "seqs [] = Eps"
| "seqs (r # rs) = Seq r (seqs rs)"

subsection \<open>Reading a pattern\<close>

text \<open>
  \<^verbatim>\<open>new RegExp(source, 'i')\<close> reads the source from left to right. The state holds the
  terms of the sequence being read and the alternatives already read of the group being
  read, both last first, the same two lists of every enclosing group, and whether a
  quantifier may follow.
\<close>

datatype qstate = CanQuantify | JustQuantified | CannotQuantify

record pstate =
  cur :: "rx list"
  done_alts :: "rx list"
  stack :: "(rx list \<times> rx list) list"
  q :: qstate

definition init_pstate :: pstate where
  "init_pstate = \<lparr>cur = [], done_alts = [], stack = [], q = CannotQuantify\<rparr>"

definition push_atom :: "rx \<Rightarrow> pstate \<Rightarrow> pstate" where
  "push_atom a st = st\<lparr>cur := a # cur st, q := CanQuantify\<rparr>"

definition push_assertion :: "rx \<Rightarrow> pstate \<Rightarrow> pstate" where
  "push_assertion a st = st\<lparr>cur := a # cur st, q := CannotQuantify\<rparr>"

definition close_alts :: "pstate \<Rightarrow> rx" where
  "close_alts st = alts (rev (seqs (rev (cur st)) # done_alts st))"

definition next_alt :: "pstate \<Rightarrow> pstate" where
  "next_alt st = st\<lparr>cur := [], done_alts := seqs (rev (cur st)) # done_alts st, q := CannotQuantify\<rparr>"

definition open_group :: "pstate \<Rightarrow> pstate" where
  "open_group st =
     st\<lparr>cur := [], done_alts := [], stack := (cur st, done_alts st) # stack st,
        q := CannotQuantify\<rparr>"

definition close_group :: "pstate \<Rightarrow> pstate option" where
  "close_group st =
     (case stack st of
        [] \<Rightarrow> None
      | (outer_cur, outer_alts) # rest \<Rightarrow>
          Some \<lparr>cur = close_alts st # outer_cur, done_alts = outer_alts, stack = rest,
                q = CanQuantify\<rparr>)"

text \<open>
  The character after a backslash: a class, a control character, or the character itself
  when it is neither a letter nor a digit. The other escapes are not read here.
\<close>

definition ascii_alnum :: "char \<Rightarrow> bool" where
  "ascii_alnum c =
     (let n = (of_char c :: nat) in
      (48 \<le> n \<and> n \<le> 57) \<or> (65 \<le> n \<and> n \<le> 90) \<or> (97 \<le> n \<and> n \<le> 122))"

definition escape_atom :: "char \<Rightarrow> rx option" where
  "escape_atom e =
     (if e = CHR ''s'' then Some Space else if e = CHR ''S'' then Some NotSpace
      else if e = CHR ''d'' then Some Digit else if e = CHR ''D'' then Some NotDigit
      else if e = CHR ''w'' then Some Word else if e = CHR ''W'' then Some NotWord
      else if e = CHR ''t'' then Some (Lit (CHR 0x09))
      else if e = CHR ''n'' then Some (Lit (CHR 0x0A))
      else if e = CHR ''v'' then Some (Lit (CHR 0x0B))
      else if e = CHR ''f'' then Some (Lit (CHR 0x0C))
      else if e = CHR ''r'' then Some (Lit (CHR 0x0D))
      else if ascii_alnum e then None
      else Some (Lit e))"

text \<open>
  After \<^verbatim>\<open>{\<close>: digits, then \<^verbatim>\<open>}\<close> or a comma, digits and \<^verbatim>\<open>}\<close>. Only then is the
  brace a quantifier; otherwise it is the character.
\<close>

definition brace_quantifier :: "string \<Rightarrow> bool" where
  "brace_quantifier cs =
     (takeWhile is_digit cs \<noteq> [] \<and>
      (case dropWhile is_digit cs of
         [] \<Rightarrow> False
       | c # r \<Rightarrow>
           c = CHR ''}'' \<or>
           (c = CHR '','' \<and>
            (case dropWhile is_digit r of [] \<Rightarrow> False | c' # r' \<Rightarrow> c' = CHR ''}''))))"

text \<open>
  One step on the character \<open>c\<close> before the rest \<open>cs\<close>: the result of the whole reading
  (\<open>Stop\<close>), or the next state and how many characters of the rest were read as well.
  A quantifier with nothing to repeat, a closing parenthesis without an opening one and
  a backslash at the end are syntax errors. Character classes in brackets, quantifiers in
  braces, groups that start with a question mark other than \<^verbatim>\<open>(?:\<close>, and the escapes
  with a letter or a digit that are not listed above are not read here.
\<close>

datatype step_result = Stop "rx js" | Go pstate nat

definition quantify :: "(rx \<Rightarrow> rx) \<Rightarrow> pstate \<Rightarrow> step_result" where
  "quantify f st =
     (case cur st of
        [] \<Rightarrow> Stop (Throws ''SyntaxError'')
      | a # as \<Rightarrow>
          if q st = CanQuantify then Go (st\<lparr>cur := f a # as, q := JustQuantified\<rparr>) 0
          else Stop (Throws ''SyntaxError''))"

definition step :: "pstate \<Rightarrow> char \<Rightarrow> string \<Rightarrow> step_result" where
  "step st c cs =
     (if c = CHR 0x5C then
        (case cs of
           [] \<Rightarrow> Stop (Throws ''SyntaxError'')
         | e # cs' \<Rightarrow>
             (case escape_atom e of
                None \<Rightarrow> Stop NotModelled
              | Some a \<Rightarrow> Go (push_atom a st) 1))
      else if c = CHR ''('' then
        (case cs of
           [] \<Rightarrow> Go (open_group st) 0
         | c1 # cs' \<Rightarrow>
             if c1 = CHR ''?'' then
               (case cs' of
                  [] \<Rightarrow> Stop (Throws ''SyntaxError'')
                | c2 # cs'' \<Rightarrow> if c2 = CHR '':'' then Go (open_group st) 2 else Stop NotModelled)
             else Go (open_group st) 0)
      else if c = CHR '')'' then
        (case close_group st of
           None \<Rightarrow> Stop (Throws ''SyntaxError'')
         | Some st' \<Rightarrow> Go st' 0)
      else if c = CHR ''|'' then Go (next_alt st) 0
      else if c = CHR ''*'' then quantify Star st
      else if c = CHR ''+'' then quantify Plus st
      else if c = CHR ''?'' then
        (if q st = JustQuantified then Go (st\<lparr>q := CannotQuantify\<rparr>) 0 else quantify Opt st)
      else if c = CHR ''.'' then Go (push_atom Dot st) 0
      else if c = CHR ''^'' then Go (push_assertion Bol st) 0
      else if c = CHR ''$'' then Go (push_assertion Eol st) 0
      else if c = CHR ''['' then Stop NotModelled
      else if c = CHR ''{'' \<and> brace_quantifier cs then
        (if q st = CanQuantify then Stop NotModelled else Stop (Throws ''SyntaxError''))
      else Go (push_atom (Lit c) st) 0)"

function regexp_read :: "pstate \<Rightarrow> string \<Rightarrow> rx js" where
  "regexp_read st [] =
     (if stack st = [] then Returns (close_alts st) else Throws ''SyntaxError'')"
| "regexp_read st (c # cs) =
     (case step st c cs of
        Stop r \<Rightarrow> r
      | Go st' k \<Rightarrow> regexp_read st' (drop k cs))"
  by pat_completeness auto
termination
  by (relation "measure (\<lambda>(st, s). length s)") auto

definition new_RegExp :: "string \<Rightarrow> rx js" where
  "new_RegExp src = regexp_read init_pstate src"

subsection \<open>The query\<close>

text \<open>
  The value of the string literal \<^verbatim>\<open>allowedCharsBeforeAndAfter\<close>. In the literal,
  \<^verbatim>\<open>\\s\<close>, \<^verbatim>\<open>\\.\<close>, \<^verbatim>\<open>\\?\<close>, \<^verbatim>\<open>\\(\<close>, \<^verbatim>\<open>\\)\<close>, \<^verbatim>\<open>\\[\<close>, \<^verbatim>\<open>\\]\<close> and
  \<^verbatim>\<open>\\+\<close> keep one backslash, while \<^verbatim>\<open>\,\<close>, \<^verbatim>\<open>\!\<close>, \<^verbatim>\<open>\'\<close> and \<^verbatim>\<open>\$\<close> are
  the characters themselves: the thirteenth alternative is a bare \<^verbatim>\<open>$\<close>, the end of
  the string, not a dollar sign.
\<close>

definition allowedCharsBeforeAndAfter :: string where
  "allowedCharsBeforeAndAfter =
     CHR 0x5C # ''s|'' @ CHR 0x5C # ''.|,|!|'' @ CHR 0x5C # ''?|:|-|_|'' @ CHR 0x27 # ''|'' @
     CHR 0x22 # ''|@|#|$|%|&|'' @ CHR 0x5C # ''(|'' @ CHR 0x5C # '')|'' @ CHR 0x5C # ''[|'' @
     CHR 0x5C # '']|{|}|'' @ CHR 0x5C # ''+''"

text \<open>
  \<^verbatim>\<open>'.*(^|'+allowedCharsBeforeAndAfter+')+'+keyword+'('+allowedCharsBeforeAndAfter+'|$)+.*'\<close>:
  the keyword is pasted in as it is.
\<close>

definition searchTerm_source :: "string \<Rightarrow> string" where
  "searchTerm_source keyword =
     ''.*(^|'' @ allowedCharsBeforeAndAfter @ '')+'' @ keyword @
     ''('' @ allowedCharsBeforeAndAfter @ ''|$)+.*''"

record options =
  opt_from :: "jsdate option"
  opt_to :: "jsdate option"
  opt_limit :: "nat option"

record criteria =
  searchTerm :: rx
  savedAt_gte :: "jsdate option"
  savedAt_lte :: "jsdate option"

record query =
  q_criteria :: criteria
  q_limit :: "nat option"

definition createQueryForArticles :: "string \<Rightarrow> options \<Rightarrow> query js" where
  "createQueryForArticles keyword opts =
     (case new_RegExp (searchTerm_source keyword) of
        Returns r \<Rightarrow>
          Returns \<lparr>q_criteria = \<lparr>searchTerm = r, savedAt_gte = opt_from opts,
                     savedAt_lte = opt_to opts\<rparr>,
                   q_limit = opt_limit opts\<rparr>
      | Throws e \<Rightarrow> Throws e
      | NotModelled \<Rightarrow> NotModelled)"

text \<open>A regular expression as a filter on a field matches only a field that holds a string.\<close>

definition field_matches :: "rx \<Rightarrow> jsstr \<Rightarrow> bool" where
  "field_matches r f = (case f of None \<Rightarrow> False | Some s \<Rightarrow> rx_test r s)"

definition criteria_match :: "criteria \<Rightarrow> articleDoc \<Rightarrow> bool" where
  "criteria_match c a =
     ((field_matches (searchTerm c) (title a) \<or> field_matches (searchTerm c) (description a) \<or>
       field_matches (searchTerm c) (author a)) \<and>
      (case savedAt_gte c of None \<Rightarrow> True | Some t \<Rightarrow> t \<le> savedAt a) \<and>
      (case savedAt_lte c of None \<Rightarrow> True | Some t \<Rightarrow> savedAt a \<le> t))"

text \<open>
  What \<^verbatim>\<open>query.exec\<close> finds in the collection: the matching documents, newest
  \<open>savedAt\<close> first, cut at the limit (a limit of 0 is no limit). The title of the feed
  that \<^verbatim>\<open>populate\<close> attaches to each result is left out.
\<close>

definition query_exec :: "query \<Rightarrow> articleDoc list \<Rightarrow> articleDoc list" where
  "query_exec qu arts =
     (let found = sort_key (\<lambda>a. - savedAt a) (filter (criteria_match (q_criteria qu)) arts) in
      case q_limit qu of
        None \<Rightarrow> found
      | Some n \<Rightarrow> if n = 0 then found else take n found)"

text \<open>
  \<^verbatim>\<open>function executeArticleQuery(query, callback)\<close>, with the outcome of the storage
  call as an argument: what the callback is called with. When the storage call reports an
  error, the error is logged and the callback is not called: \<open>None\<close>.
\<close>

definition executeArticleQuery :: "bool \<Rightarrow> query \<Rightarrow> articleDoc list \<Rightarrow> articleDoc list option" where
  "executeArticleQuery execErr qu arts = (if execErr then None else Some (query_exec qu arts))"

text \<open>
  \<^verbatim>\<open>function getArticlesByKeyword(keyword, options, callback)\<close>: an exception of
  \<^verbatim>\<open>new RegExp\<close> leaves the function before the storage is asked.
\<close>

definition getArticlesByKeyword ::
  "bool \<Rightarrow> string \<Rightarrow> options \<Rightarrow> articleDoc list \<Rightarrow> articleDoc list option js" where
  "getArticlesByKeyword execErr keyword opts arts =
     (case createQueryForArticles keyword opts of
        Returns qu \<Rightarrow> Returns (executeArticleQuery execErr qu arts)
      | Throws e \<Rightarrow> Throws e
      | NotModelled \<Rightarrow> NotModelled)"

text \<open>\<^verbatim>\<open>var keyword = '('+keywords.join('|')+')'\<close>\<close>

definition getArticlesByKeywordArray ::
  "bool \<Rightarrow> string list \<Rightarrow> options \<Rightarrow> articleDoc list \<Rightarrow> articleDoc list option js" where
  "getArticlesByKeywordArray execErr keywords opts arts =
     getArticlesByKeyword execErr (''('' @ join_with ''|'' keywords @ '')'') opts arts"

subsection \<open>What the specification says a keyword matches\<close>

text \<open>
  The delimiters: white space and the punctuation characters that the pattern lists as
  characters.
\<close>

definition punctuation :: string where
  "punctuation = ''.,!?:-_'' @ [CHR 0x27, CHR 0x22] @ ''@#%&()[]{}+''"

definition delimiter :: "char \<Rightarrow> bool" where
  "delimiter c = (is_space c \<or> c \<in> set punctuation)"




subsection \<open>Keywords of characters and dots\<close>




definition allowed_atoms :: "rx list" where
  "allowed_atoms =
     [Space, Lit CHR ''.'', Lit CHR '','', Lit CHR ''!'', Lit CHR ''?'', Lit CHR '':'',
      Lit CHR ''-'', Lit CHR ''_'', Lit CHR 0x27, Lit CHR 0x22, Lit CHR ''@'', Lit CHR ''#'',
      Eol, Lit CHR ''%'', Lit CHR ''&'', Lit CHR ''('', Lit CHR '')'', Lit CHR ''['',
      Lit CHR '']'', Lit CHR ''{'', Lit CHR ''}'', Lit CHR ''+'']"

definition group_of :: "rx list \<Rightarrow> rx" where
  "group_of as = alts (map (\<lambda>a. seqs [a]) as)"


fun atom_char :: "rx \<Rightarrow> char \<Rightarrow> bool" where
  "atom_char (Lit c) x = (canonicalize x = canonicalize c)"
| "atom_char Dot x = (x \<noteq> CHR 0x0A \<and> x \<noteq> CHR 0x0D)"
| "atom_char r x = False"

definition kw_at :: "rx list \<Rightarrow> string \<Rightarrow> nat \<Rightarrow> bool" where
  "kw_at kw s i =
     (i + length kw \<le> length s \<and> list_all2 atom_char kw (take (length kw) (drop i s)))"

fun is_atom :: "rx \<Rightarrow> bool" where
  "is_atom (Lit c) = True"
| "is_atom Dot = True"
| "is_atom r = False"

definition flat :: "rx list \<Rightarrow> bool" where
  "flat kw = list_all is_atom kw"

section \<open>Concrete inputs\<close>

definition ex_url :: string where
  "ex_url = ''http://example.org/feed''"

definition ex_feed :: feedDoc where
  "ex_feed =
     \<lparr>title = Some ''Old title'', description = Some ''Old description'',
      link = Some ''http://old.example/'', date = Some 1000, pubDate = Some 1000,
      author = Some ''Old author'',
      image_obj = \<lparr>o_title = Some ''Old logo'', o_url = Some ''http://old.example/logo.png''\<rparr>,
      categories = [''old''], xmlUrl = Some ''http://old.example/rss'', language = Some ''en'',
      favicon = Some ''http://old.example/favicon.ico'', copyright = Some ''Old rights'',
      generator = Some ''Old generator'', fid = ''http://example.org/feed'',
      lastModified = Some ''Mon, 01 Jan 2024 00:00:00 GMT''\<rparr>"

definition ex_meta :: meta where
  "ex_meta =
     \<lparr>title = Some ''New title'', description = Some ''New description'',
      link = Some ''http://new.example/'', date = Some 2000, pubDate = Some 2000,
      author = Some ''New author'',
      image_obj = \<lparr>o_title = Some ''New logo'', o_url = Some ''http://new.example/logo.png''\<rparr>,
      categories = [''new'', ''news''], xmlUrl = Some ''http://new.example/rss'',
      language = Some ''fr'', favicon = Some ''http://new.example/favicon.ico'',
      copyright = Some ''New rights'', generator = Some ''New generator''\<rparr>"

definition ex_article :: article where
  "ex_article =
     \<lparr>title = Some ''New headline'', description = Some ''New text'',
      link = Some ''http://new.example/1'', date = Some 2000, pubDate = Some 2000,
      author = Some ''New writer'',
      image_obj = \<lparr>o_title = Some ''New picture'', o_url = Some ''http://new.example/1.png''\<rparr>,
      categories = [''new''], origLink = Some ''http://new.example/orig/1'',
      guid = Some ''guid-1'', comments = Some ''http://new.example/1/comments'',
      source = \<lparr>o_title = Some ''New source'', o_url = Some ''http://new.example/source''\<rparr>,
      enclosures =
        [\<lparr>e_url = Some ''http://new.example/1.mp3'', e_type = Some ''audio/mpeg'',
          e_length = Some ''2000''\<rparr>,
         \<lparr>e_url = Some ''http://new.example/1.ogg'', e_type = Some ''audio/ogg'',
          e_length = Some ''1500''\<rparr>]\<rparr>"

definition ex_articleDoc :: articleDoc where
  "ex_articleDoc =
     \<lparr>title = Some ''Old headline'', description = Some ''Old text'',
      link = Some ''http://old.example/1'', date = Some 1000, pubDate = Some 1000,
      author = Some ''Old writer'',
      image_obj = \<lparr>o_title = Some ''Old picture'', o_url = Some ''http://old.example/1.png''\<rparr>,
      categories = [''old''], origLink = Some ''http://old.example/orig/1'',
      guid = Some ''guid-1'', comments = Some ''http://old.example/1/comments'',
      source = \<lparr>o_title = Some ''Old source'', o_url = Some ''http://old.example/source''\<rparr>,
      enclosures =
        [\<lparr>e_url = Some ''http://old.example/1.mp3'', e_type = Some ''audio/mp3'',
          e_length = Some ''1000''\<rparr>],
      feed = Some ''http://example.org/feed'', savedAt = 1000\<rparr>"

definition io_ok :: io where
  "io_ok = \<lparr>findErr = False, saveErr = False, clock = 5000\<rparr>"

definition ex_response :: response where
  "ex_response =
     \<lparr>statusCode = 200,
      headers = [(''Content-Type'', ''text/xml''),
                 (''Last-Modified'', ''Tue, 02 Jan 2024 00:00:00 GMT'')],
      body = ''<rss/>''\<rparr>"

definition ex_env :: env where
  "ex_env =
     \<lparr>countErr = False, lastModifiedErr = False,
      request = (\<lambda>r. Inr ex_response),
      chardet_detect = (\<lambda>b. Some ''UTF-8''),
      iconv_decode = (\<lambda>b enc. Inr (map of_char b)),
      iconv_encode = map char_of,
      feedparser = (\<lambda>b. [Meta ex_meta, Item ex_article, End]),
      storage = (\<lambda>n. io_ok)\<rparr>"

definition ex_env_304 :: env where
  "ex_env_304 = ex_env\<lparr>request := (\<lambda>r. Inr (ex_response\<lparr>statusCode := 304\<rparr>))\<rparr>"

definition ex_env_latin1 :: env where
  "ex_env_latin1 = ex_env\<lparr>chardet_detect := (\<lambda>b. Some ''ISO-8859-1'')\<rparr>"

definition ex_env_unsupported :: env where
  "ex_env_unsupported =
     ex_env\<lparr>chardet_detect := (\<lambda>b. Some ''ISO-2022-JP''),
            iconv_decode := (\<lambda>b enc. Inl ''Encoding not recognized'')\<rparr>"

definition ex_empty :: store where
  "ex_empty = \<lparr>feeds = [], articles = []\<rparr>"

definition ex_store :: store where
  "ex_store = \<lparr>feeds = [ex_feed], articles = [ex_articleDoc]\<rparr>"

definition ex_utc :: zone where
  "ex_utc = (\<lambda>t isUTC. 0)"

text \<open>
  New York around the change of the clock of 10 March 2024, 07:00 UTC: five hours behind
  UTC before it, four hours after it.
\<close>

definition ex_new_york :: zone where
  "ex_new_york =
     (\<lambda>t isUTC. if isUTC then (if t < 1710054000000 then - 18000000 else - 14400000)
                else (if t < 1710039600000 then - 18000000 else - 14400000))"

definition ex_saved_long_ago :: articleDoc where
  "ex_saved_long_ago = ex_articleDoc\<lparr>date := Some 900000000, savedAt := 0\<rparr>"

definition ex_saved_now :: articleDoc where
  "ex_saved_now = ex_articleDoc\<lparr>date := Some 0, savedAt := 864000000\<rparr>"

definition ex_dated_23h30_before :: articleDoc where
  "ex_dated_23h30_before = ex_articleDoc\<lparr>date := Some 1710001800000\<rparr>"

definition ex_undated :: articleDoc where
  "ex_undated = ex_articleDoc\<lparr>date := None\<rparr>"

definition no_options :: options where
  "no_options = \<lparr>opt_from = None, opt_to = None, opt_limit = None\<rparr>"

definition ex_read_foo_bar :: articleDoc where
  "ex_read_foo_bar =
     ex_articleDoc\<lparr>title := Some ''Read Foo Bar'', description := None, author := None\<rparr>"






section \<open>Lemmas about the store\<close>

lemma find_pos_Some: "find_pos P xs = Some i \<Longrightarrow> i < length xs \<and> P (xs ! i)"
  by (induction xs arbitrary: i) (auto split: if_splits)

lemma map_fid_replace_first:
  "fid d' = fid d \<Longrightarrow> map fid (replace_first (\<lambda>x. fid x = fid d) d' xs) = map fid xs"
  by (induction xs) auto

lemma fid_assignFeedFields: "fid (assignFeedFields d m t) = fid d"
  by (simp add: assignFeedFields_def)

lemma find_None_fid: "find (\<lambda>d. fid d = url) xs = None \<Longrightarrow> url \<notin> set (map fid xs)"
  by (induction xs) (auto split: if_splits)

lemma find_Some_fid: "find (\<lambda>d. fid d = url) xs = Some d \<Longrightarrow> fid d = url"
  by (induction xs) (auto split: if_splits)

lemma saveOrUpdateFeedMeta_distinct:
  "distinct (map fid (feeds s)) \<Longrightarrow> distinct (map fid (feeds (saveOrUpdateFeedMeta e m url t s)))"
  by (auto simp: saveOrUpdateFeedMeta_def saveFeedMeta_def updateFeedMeta_def save_feed_def
      createFeedDocument_def map_fid_replace_first fid_assignFeedFields
      dest: find_None_fid split: option.splits)

lemma saveOrUpdateFeedMeta_articles:
  "articles (saveOrUpdateFeedMeta e m url t s) = articles s"
  by (auto simp: saveOrUpdateFeedMeta_def saveFeedMeta_def updateFeedMeta_def save_feed_def
      split: option.splits)

lemma saveOrUpdateArticle_feeds: "feeds (saveOrUpdateArticle e a url s) = feeds s"
  by (auto simp: saveOrUpdateArticle_def saveArticle_def updateArticle_def split: option.splits)

lemma savedAt_assignArticleFields: "savedAt (assignArticleFields d a) = savedAt d"
  by (simp add: assignArticleFields_def)

lemma map_savedAt_update:
  "map savedAt (xs[i := assignArticleFields (xs ! i) a]) = map savedAt xs"
  by (cases "i < length xs") (simp_all add: list_update_beyond map_update savedAt_assignArticleFields list_update_same_conv)

lemma saveOrUpdateArticle_savedAt:
  "prefix (map savedAt (articles s)) (map savedAt (articles (saveOrUpdateArticle e a url s)))"
  by (auto simp: saveOrUpdateArticle_def saveArticle_def updateArticle_def map_savedAt_update
      split: option.splits)

lemma handleEvents_distinct:
  "distinct (map fid (feeds s)) \<Longrightarrow>
   distinct (map fid (feeds (fst (handleEvents st url t evs s c))))"
  by (induction evs arbitrary: st s c)
     (auto simp: saveOrUpdateFeedMeta_distinct saveOrUpdateArticle_feeds split: event.splits)

lemma handleEvents_savedAt:
  "prefix (map savedAt (articles s))
     (map savedAt (articles (fst (handleEvents st url t evs s c))))"
proof (induction evs arbitrary: st s c)
  case Nil
  show ?case by simp
next
  case (Cons x xs)
  show ?case
  proof (cases x)
    case (Meta m)
    from Cons.IH [of "saveOrUpdateFeedMeta (st 0) m url t s" "\<lambda>n. st (Suc n)" c]
    show ?thesis using Meta by (simp add: saveOrUpdateFeedMeta_articles)
  next
    case (Item a)
    have "prefix (map savedAt (articles s)) (map savedAt (articles (saveOrUpdateArticle (st 0) a url s)))"
      by (rule saveOrUpdateArticle_savedAt)
    also have "prefix \<dots> (map savedAt (articles (fst (handleEvents (\<lambda>n. st (Suc n)) url t xs
         (saveOrUpdateArticle (st 0) a url s) c))))"
      by (rule Cons.IH)
    finally show ?thesis using Item by simp
  next
    case (ParseError err)
    then show ?thesis using Cons.IH by simp
  next
    case End
    then show ?thesis using Cons.IH by simp
  qed
qed

lemma handleEvents_called:
  "snd (handleEvents st url t evs s c) = c + length (filter (\<lambda>x. x = End) evs)"
  by (induction evs arbitrary: st s c) (auto split: event.splits)

lemma handleEvents_called_pair:
  "handleEvents st url t evs s c = (s', c') \<Longrightarrow> c' = c + length (filter (\<lambda>x. x = End) evs)"
  using handleEvents_called [of st url t evs s c] by simp

lemma db_handleResponse_cases:
  "db (handleResponse ev url r s) = s \<or>
   (\<exists>resp b. r = Inr resp \<and> statusCode resp = 200 \<and> getBufferAsUtf8Buffer ev (body resp) = Inr b \<and>
      db (handleResponse ev url r s) =
        fst (handleEvents (storage ev) url (getLastModifiedFromResponseHeaders (headers resp))
               (feedparser ev b) s 0))"
  by (auto simp: handleResponse_def Let_def split: sum.splits prod.splits)

lemma called_handleResponse:
  "called (handleResponse ev url r s) =
     (case r of Inl err \<Rightarrow> 0
      | Inr resp \<Rightarrow>
          if statusCode resp = 200
          then (case getBufferAsUtf8Buffer ev (body resp) of Inl thrown \<Rightarrow> 0
                | Inr b \<Rightarrow> length (filter (\<lambda>x. x = End) (feedparser ev b)))
          else 0)"
  by (auto simp: handleResponse_def Let_def split: sum.splits prod.splits
      dest: handleEvents_called_pair)


lemma requestAndParseFeed_savedAt:
  "prefix (map savedAt (articles s)) (map savedAt (articles (db (requestAndParseFeed ev url s))))"
  using db_handleResponse_cases [of ev url "request ev (requestFor ev url s)" s]
    handleEvents_savedAt [of s]
  by (auto simp: requestAndParseFeed_def)

lemma called_addFeed:
  "called (addFeed ev url s) =
     (if countErr ev \<or> url \<in> fid ` set (feeds s) then 0
      else called (handleResponse ev url (request ev (requestFor ev url s)) s))"
  by (auto simp: addFeed_def Let_def requestAndParseFeed_def filter_empty_conv)

lemma requestAndParseFeed_distinct:
  "distinct (map fid (feeds s)) \<Longrightarrow>
   distinct (map fid (feeds (db (requestAndParseFeed ev url s))))"
  using db_handleResponse_cases [of ev url "request ev (requestFor ev url s)" s]
    handleEvents_distinct [of s]
  by (auto simp: requestAndParseFeed_def)

lemma addFeed_distinct:
  "distinct (map fid (feeds s)) \<Longrightarrow> distinct (map fid (feeds (db (addFeed ev url s))))"
  by (simp add: addFeed_def Let_def requestAndParseFeed_distinct)

lemma addFeeds_distinct:
  "distinct (map fid (feeds s)) \<Longrightarrow> distinct (map fid (feeds (addFeeds cs s)))"
  by (induction cs arbitrary: s) (simp_all add: addFeed_distinct)

lemma addFeed_stored:
  "url \<in> fid ` set (feeds s) \<Longrightarrow> addFeed ev url s = \<lparr>db = s, called = 0, uncaught = None\<rparr>"
  by (auto simp: addFeed_def Let_def filter_empty_conv)

lemma updateFeedMeta_only_if_all_differ:
  "updateFeedMeta e d m t s \<noteq> s \<Longrightarrow> feedRequiresUpdate d m t"
  by (simp add: updateFeedMeta_def split: if_splits)

lemma articleRequiresUpdate_never: "\<not> articleRequiresUpdate d a"
  by (simp add: articleRequiresUpdate_def array_url_def)

section \<open>Lemmas about the search pattern\<close>

subsection \<open>Case folding\<close>



lemma to_upper_no_letter:
  fixes n m :: nat
  assumes "m < 65 \<or> (90 < m \<and> m < 97) \<or> (122 < m \<and> m < 181)"
    and "(if (97 \<le> n \<and> n \<le> 122) \<or> (224 \<le> n \<and> n \<le> 254 \<and> n \<noteq> 247) then n - 32
      else if n = 255 then 376 else if n = 181 then 924 else n) = m"
  shows "n = m"
proof -
  consider "97 \<le> n \<and> n \<le> 122" | "224 \<le> n \<and> n \<le> 254 \<and> n \<noteq> 247" | "n = 255" | "n = 181"
    | "\<not> ((97 \<le> n \<and> n \<le> 122) \<or> (224 \<le> n \<and> n \<le> 254 \<and> n \<noteq> 247))" "n \<noteq> 255" "n \<noteq> 181"
    by blast
  then show ?thesis
  proof cases
    case 1
    then have "m = n - 32" using assms(2) by simp
    with 1 assms(1) show ?thesis by arith
  next
    case 2
    then have "m = n - 32" using assms(2) by simp
    with 2 assms(1) show ?thesis by arith
  next
    case 3
    then show ?thesis using assms by simp
  next
    case 4
    then show ?thesis using assms by simp
  next
    case 5
    then show ?thesis using assms(2) by (simp only: if_False)
  qed
qed

lemma no_letter_to_upper:
  fixes m :: nat
  assumes "m < 65 \<or> (90 < m \<and> m < 97) \<or> (122 < m \<and> m < 181)"
  shows "(if (97 \<le> m \<and> m \<le> 122) \<or> (224 \<le> m \<and> m \<le> 254 \<and> m \<noteq> 247) then m - 32
      else if m = 255 then 376 else if m = 181 then 924 else m) = m"
proof -
  have "\<not> ((97 \<le> m \<and> m \<le> 122) \<or> (224 \<le> m \<and> m \<le> 254 \<and> m \<noteq> 247))" "m \<noteq> 255" "m \<noteq> 181"
    using assms by arith+
  then show ?thesis by (simp only: if_False)
qed





lemma canonicalize_no_letter:
  assumes "(of_char c :: nat) < 65 \<or> (90 < (of_char c :: nat) \<and> (of_char c :: nat) < 97) \<or>
    (122 < (of_char c :: nat) \<and> (of_char c :: nat) < 181)"
  shows "(canonicalize x = canonicalize c) = (x = c)"
proof
  have c: "canonicalize c = of_char c"
    unfolding canonicalize_def Let_def by (rule no_letter_to_upper [OF assms])
  assume "canonicalize x = canonicalize c"
  then have "canonicalize x = of_char c" by (simp only: c)
  then have "(of_char x :: nat) = of_char c"
    unfolding canonicalize_def Let_def by (rule to_upper_no_letter [OF assms])
  then show "x = c" by simp
next
  assume "x = c"
  then show "canonicalize x = canonicalize c" by simp
qed

lemma punctuation_no_letter:
  "c \<in> set punctuation \<Longrightarrow>
   (of_char c :: nat) < 65 \<or> (90 < (of_char c :: nat) \<and> (of_char c :: nat) < 97) \<or>
   (122 < (of_char c :: nat) \<and> (of_char c :: nat) < 181)"
  by (auto simp: punctuation_def)

lemma canonicalize_punct:
  "c \<in> set punctuation \<Longrightarrow> (canonicalize x = canonicalize c) = (x = c)"
  by (rule canonicalize_no_letter) (rule punctuation_no_letter)

subsection \<open>Matching\<close>

lemma iter_refl: "iter k R i i"
  by (cases k) simp_all


lemma mem_upt_Suc: "(m \<in> set [i..<Suc j]) = (i \<le> m \<and> m \<le> j)"
  by (auto simp del: upt_Suc)

lemma iter_rtranclp: "iter k R i j \<Longrightarrow> R\<^sup>*\<^sup>* i j"
proof (induction k arbitrary: i)
  case 0
  then show ?case by simp
next
  case (Suc k)
  then show ?case by (auto intro: converse_rtranclp_into_rtranclp)
qed

lemma iter_mono: "iter k R i j \<Longrightarrow> k \<le> k' \<Longrightarrow> iter k' R i j"
proof (induction k arbitrary: i k')
  case 0
  then show ?case by (simp add: iter_refl)
next
  case (Suc k)
  from Suc.prems(2) obtain k'' where k': "k' = Suc k''" and le: "k \<le> k''"
    by (cases k') auto
  from Suc.prems(1) have "i = j \<or> (\<exists>m\<in>set [i..<Suc j]. R i m \<and> iter k R m j)" by simp
  then have "i = j \<or> (\<exists>m\<in>set [i..<Suc j]. R i m \<and> iter k'' R m j)"
    using Suc.IH le by blast
  then show ?case unfolding k' by simp
qed

lemma iter_le: "iter k R i j \<Longrightarrow> i \<le> j"
  by (cases k) (auto simp del: upt_Suc)

lemma iter_bound:
  assumes "\<And>a b. R a b \<Longrightarrow> a \<le> n \<Longrightarrow> b \<le> n"
  shows "iter k R i j \<Longrightarrow> i \<le> n \<Longrightarrow> j \<le> n"
proof (induction k arbitrary: i)
  case 0
  then show ?case by simp
next
  case (Suc k)
  then show ?case using assms by (auto simp del: upt_Suc)
qed

lemma rtranclp_le:
  assumes "\<And>a b. R a b \<Longrightarrow> a \<le> (b::nat)"
  shows "R\<^sup>*\<^sup>* i j \<Longrightarrow> i \<le> j"
  by (induction rule: rtranclp_induct) (auto dest: assms)

lemma rtranclp_iter:
  assumes mono: "\<And>a b. R a b \<Longrightarrow> a \<le> b"
    and bound: "\<And>a b. R a b \<Longrightarrow> a \<le> n \<Longrightarrow> b \<le> n"
  shows "R\<^sup>*\<^sup>* i j \<Longrightarrow> i \<le> n \<Longrightarrow> iter (n - i) R i j"
proof (induction rule: converse_rtranclp_induct)
  case base
  show ?case by (rule iter_refl)
next
  case (step i m)
  have im: "i \<le> m" using step.hyps(1) by (rule mono)
  have mn: "m \<le> n" using step.hyps(1) step.prems by (rule bound)
  have mj: "m \<le> j" using mono step.hyps(2) by (rule rtranclp_le)
  have ih: "iter (n - m) R m j" using mn by (rule step.IH)
  show ?case
  proof (cases "m = i")
    case True
    with ih show ?thesis by simp
  next
    case False
    with im have lt: "i < m" by simp
    then obtain k where k: "n - i = Suc k" and le: "n - m \<le> k"
      using mn by (cases "n - i") auto
    have "iter k R m j" using ih le by (rule iter_mono)
    moreover have "m \<in> set [i..<Suc j]" using im mj by (simp only: mem_upt_Suc)
    ultimately have "iter (Suc k) R i j"
      using step.hyps(1) unfolding iter.simps by blast
    then show ?thesis unfolding k .
  qed
qed

lemma rx_match_le: "rx_match r s i j \<Longrightarrow> i \<le> j"
proof (induction r arbitrary: i j)
  case (Seq a b)
  from Seq.prems obtain m where "rx_match a s i m" and "rx_match b s m j"
    by (auto simp del: upt_Suc)
  then have "i \<le> m" and "m \<le> j" using Seq.IH by blast+
  then show ?case by (rule order_trans)
next
  case (Plus a)
  from Plus.prems obtain m where "rx_match a s i m"
    and "iter (length s) (rx_match a s) m j"
    by (auto simp del: upt_Suc)
  then have "i \<le> m" and "m \<le> j" using Plus.IH iter_le by blast+
  then show ?case by (rule order_trans)
next
  case (Star a)
  then show ?case by (auto dest: iter_le)
qed auto

lemma rx_match_bound: "rx_match r s i j \<Longrightarrow> i \<le> length s \<Longrightarrow> j \<le> length s"
proof (induction r arbitrary: i j)
  case (Seq a b)
  then show ?case by (auto simp del: upt_Suc)
next
  case (Plus a)
  from Plus.prems obtain m where m: "rx_match a s i m"
    and it: "iter (length s) (rx_match a s) m j" by (auto simp del: upt_Suc)
  have "m \<le> length s" using m Plus.prems(2) by (rule Plus.IH)
  with it show ?case using Plus.IH by (rule iter_bound [rotated])
next
  case (Star a)
  from Star.prems(1) have "iter (length s) (rx_match a s) i j" by simp
  then show ?case using Star.prems(2) Star.IH by (rule iter_bound [rotated])
qed auto

lemma iter_is_closure:
  assumes "i \<le> length s"
  shows "iter (length s) (rx_match a s) i j = (rx_match a s)\<^sup>*\<^sup>* i j"
proof
  assume "iter (length s) (rx_match a s) i j"
  then show "(rx_match a s)\<^sup>*\<^sup>* i j" by (rule iter_rtranclp)
next
  assume "(rx_match a s)\<^sup>*\<^sup>* i j"
  moreover have "\<And>x y. rx_match a s x y \<Longrightarrow> x \<le> y" by (rule rx_match_le)
  moreover have "\<And>x y. rx_match a s x y \<Longrightarrow> x \<le> length s \<Longrightarrow> y \<le> length s"
    by (rule rx_match_bound)
  ultimately have "iter (length s - i) (rx_match a s) i j"
    using assms rtranclp_iter [of "rx_match a s" "length s" i j] by blast
  then show "iter (length s) (rx_match a s) i j"
    by (rule iter_mono) simp
qed

lemma star_is_closure:
  "i \<le> length s \<Longrightarrow> rx_match (Star a) s i j = (rx_match a s)\<^sup>*\<^sup>* i j"
  by (simp add: iter_is_closure)

lemma plus_is_closure:
  assumes "i \<le> length s"
  shows "rx_match (Plus a) s i j = (rx_match a s)\<^sup>+\<^sup>+ i j"
proof
  assume "rx_match (Plus a) s i j"
  then obtain m where m: "rx_match a s i m" and it: "iter (length s) (rx_match a s) m j"
    by (auto simp del: upt_Suc)
  from it have "(rx_match a s)\<^sup>*\<^sup>* m j" by (rule iter_rtranclp)
  with m show "(rx_match a s)\<^sup>+\<^sup>+ i j" by (rule rtranclp_into_tranclp2)
next
  assume "(rx_match a s)\<^sup>+\<^sup>+ i j"
  then obtain m where m: "rx_match a s i m" and cl: "(rx_match a s)\<^sup>*\<^sup>* m j"
    by (blast dest: tranclpD)
  have im: "i \<le> m" using m by (rule rx_match_le)
  have mn: "m \<le> length s" using m assms by (rule rx_match_bound)
  have mj: "m \<le> j" using rx_match_le cl by (rule rtranclp_le)
  have "iter (length s) (rx_match a s) m j" using cl mn by (simp add: iter_is_closure)
  moreover have "m \<in> set [i..<Suc j]" using im mj by (simp only: mem_upt_Suc)
  ultimately show "rx_match (Plus a) s i j" using m unfolding rx_match.simps by blast
qed

lemma bex_upt: "(\<exists>m\<in>set [i..<Suc j]. P m) = (\<exists>m. i \<le> m \<and> m \<le> j \<and> P m)"
proof -
  have "set [i..<Suc j] = {m. i \<le> m \<and> m \<le> j}"
    by (auto simp del: upt_Suc)
  then show ?thesis by (simp only: Bex_def mem_Collect_eq conj_assoc)
qed

lemma seq_iff:
  "rx_match (Seq a b) s i j = (\<exists>m. i \<le> m \<and> m \<le> j \<and> rx_match a s i m \<and> rx_match b s m j)"
  by (simp only: rx_match.simps bex_upt)

lemma plus_iff:
  "rx_match (Plus a) s i j =
     (\<exists>m. i \<le> m \<and> m \<le> j \<and> rx_match a s i m \<and> iter (length s) (rx_match a s) m j)"
  by (simp only: rx_match.simps bex_upt)


lemma seqI:
  "rx_match a s i m \<Longrightarrow> rx_match b s m j \<Longrightarrow> i \<le> m \<Longrightarrow> m \<le> j \<Longrightarrow> rx_match (Seq a b) s i j"
  unfolding seq_iff by blast

lemma alts_match:
  "rs \<noteq> [] \<Longrightarrow> rx_match (alts rs) s i j = (\<exists>r\<in>set rs. rx_match r s i j)"
  by (induction rs rule: alts.induct) auto

lemma seq_eps: "rx_match (seqs [a]) s i j = rx_match a s i j"
  using rx_match_le [of a s i j] by (auto simp: seq_iff)

lemma group_match:
  "as \<noteq> [] \<Longrightarrow> rx_match (group_of as) s i j = (\<exists>a\<in>set as. rx_match a s i j)"
  unfolding group_of_def by (subst alts_match) (simp_all only: seq_eps set_map bex_simps map_is_Nil_conv not_False_eq_True)

lemma set_allowed:
  "set allowed_atoms = insert Space (insert Eol (Lit ` set punctuation))"
  by (auto simp: allowed_atoms_def punctuation_def)

lemma allowed_step:
  "(\<exists>r\<in>set allowed_atoms. rx_match r s i j) =
     ((i < length s \<and> j = Suc i \<and> delimiter (s ! i)) \<or> (i = length s \<and> j = i))"
  by (auto simp: set_allowed delimiter_def canonicalize_punct)

lemma G1_step:
  "rx_match (group_of (Bol # allowed_atoms)) s i j =
     ((i = 0 \<and> j = 0) \<or> (i < length s \<and> j = Suc i \<and> delimiter (s ! i)) \<or>
      (i = length s \<and> j = i))"
  using allowed_step [of s i j] by (auto simp: group_match)

lemma G2_step:
  "rx_match (group_of (allowed_atoms @ [Eol])) s i j =
     ((i < length s \<and> j = Suc i \<and> delimiter (s ! i)) \<or> (i = length s \<and> j = i))"
  using allowed_step [of s i j] by (auto simp: group_match)

lemma atom_match:
  "is_atom r \<Longrightarrow> rx_match r s i j = (i < length s \<and> j = Suc i \<and> atom_char r (s ! i))"
  by (cases r) auto

lemma kw_at_Nil: "kw_at [] s i = (i \<le> length s)"
  by (simp add: kw_at_def)

lemma kw_at_Cons:
  "kw_at (r # rs) s i = (i < length s \<and> atom_char r (s ! i) \<and> kw_at rs s (Suc i))"
proof (cases "i < length s")
  case True
  then have "drop i s = s ! i # drop (Suc i) s"
    by (simp add: Cons_nth_drop_Suc)
  then show ?thesis using True by (auto simp: kw_at_def)
next
  case False
  then show ?thesis by (auto simp: kw_at_def)
qed

lemma seqs_flat_append:
  "flat kw \<Longrightarrow> i \<le> length s \<Longrightarrow>
   rx_match (seqs (kw @ rest)) s i j =
     (kw_at kw s i \<and> rx_match (seqs rest) s (i + length kw) j)"
proof (induction kw arbitrary: i)
  case Nil
  then show ?case by (simp add: kw_at_Nil)
next
  case (Cons r rs)
  have r: "is_atom r" and rs: "flat rs"
    using Cons.prems(1) by (simp_all add: flat_def)
  have "rx_match (seqs ((r # rs) @ rest)) s i j =
      (\<exists>m. i \<le> m \<and> m \<le> j \<and> rx_match r s i m \<and> rx_match (seqs (rs @ rest)) s m j)"
    by (simp only: append_Cons seqs.simps seq_iff)
  also have "\<dots> = (i < length s \<and> atom_char r (s ! i) \<and> rx_match (seqs (rs @ rest)) s (Suc i) j)"
    using rx_match_le [of "seqs (rs @ rest)" s "Suc i" j] by (auto simp: atom_match [OF r])
  also have "\<dots> = (i < length s \<and> atom_char r (s ! i) \<and> kw_at rs s (Suc i) \<and>
      rx_match (seqs rest) s (Suc i + length rs) j)"
    using Cons.IH [OF rs, of "Suc i"] by auto
  also have "\<dots> = (kw_at (r # rs) s i \<and> rx_match (seqs rest) s (i + length (r # rs)) j)"
    by (auto simp: kw_at_Cons)
  finally show ?case .
qed



lemma plus_G1_intro:
  assumes "i \<le> length s" and "i = 0 \<or> i = length s \<or> delimiter (s ! (i - 1))"
  shows "\<exists>a\<le>i. rx_match (Plus (group_of (Bol # allowed_atoms))) s a i"
proof -
  consider "i = 0" | "i = length s" | "0 < i" "delimiter (s ! (i - 1))"
    using assms(2) by (cases "i = 0") auto
  then show ?thesis
  proof cases
    case 1
    have "rx_match (group_of (Bol # allowed_atoms)) s 0 0"
      unfolding G1_step by simp
    then have "rx_match (Plus (group_of (Bol # allowed_atoms))) s 0 0"
      unfolding plus_iff using iter_refl [of "length s" _ 0] by blast
    then show ?thesis using 1 by blast
  next
    case 2
    have "rx_match (group_of (Bol # allowed_atoms)) s i i"
      unfolding G1_step using 2 by simp
    then have "rx_match (Plus (group_of (Bol # allowed_atoms))) s i i"
      unfolding plus_iff using iter_refl [of "length s" _ i] by (intro exI [of _ i]) simp
    then show ?thesis by (intro exI [of _ i]) simp
  next
    case 3
    with assms(1) have "rx_match (group_of (Bol # allowed_atoms)) s (i - 1) i"
      unfolding G1_step by auto
    then have "rx_match (Plus (group_of (Bol # allowed_atoms))) s (i - 1) i"
      unfolding plus_iff using iter_refl [of "length s" _ i]
      by (intro exI [of _ i]) simp
    then show ?thesis by (intro exI [of _ "i - 1"]) simp
  qed
qed

lemma plus_G2_intro:
  assumes "i \<le> length s" "i = length s \<or> delimiter (s ! i)"
  shows "\<exists>b\<ge>i. b \<le> length s \<and> rx_match (Plus (group_of (allowed_atoms @ [Eol]))) s i b"
proof (cases "i = length s")
  case True
  have "rx_match (group_of (allowed_atoms @ [Eol])) s i i"
    unfolding G2_step using True by simp
  then have "rx_match (Plus (group_of (allowed_atoms @ [Eol]))) s i i"
    unfolding plus_iff using iter_refl [of "length s" _ i] by (intro exI [of _ i]) simp
  then show ?thesis using True by (intro exI [of _ i]) simp
next
  case False
  with assms have lt: "i < length s" and d: "delimiter (s ! i)" by simp_all
  have "rx_match (group_of (allowed_atoms @ [Eol])) s i (Suc i)"
    unfolding G2_step using lt d by simp
  then have "rx_match (Plus (group_of (allowed_atoms @ [Eol]))) s i (Suc i)"
    unfolding plus_iff using iter_refl [of "length s" _ "Suc i"]
    by (intro exI [of _ "Suc i"]) simp
  then show ?thesis using lt by (intro exI [of _ "Suc i"]) simp
qed




subsection \<open>Reading the pattern of a keyword\<close>
















section \<open>Facts about the concrete inputs\<close>

lemma ex_categories_differ:
  "JSON_stringify (categories ex_feed) \<noteq> JSON_stringify (categories ex_meta)"
  by (simp add: ex_feed_def ex_meta_def JSON_stringify_def json_quote_def json_escape_def)

lemma ex_requires_update: "feedRequiresUpdate ex_feed ex_meta (Some ex_url)"
  using ex_categories_differ
  by (simp add: feedRequiresUpdate_def ex_feed_def ex_meta_def ex_url_def)

lemma ex_update_written:
  "saveOrUpdateFeedMeta io_ok ex_meta ex_url t \<lparr>feeds = [ex_feed], articles = []\<rparr> =
     \<lparr>feeds = [assignFeedFields ex_feed ex_meta (Some ex_url)], articles = []\<rparr>"
proof -
  have f: "fid ex_feed = ex_url" by (simp add: ex_feed_def ex_url_def)
  show ?thesis
    using ex_requires_update
    by (simp add: saveOrUpdateFeedMeta_def updateFeedMeta_def save_feed_def io_ok_def f
        fid_assignFeedFields)
qed

lemma lower_Content_Type: "toLowerCase ''Content-Type'' = ''content-type''"
  by code_simp

lemma lower_Last_Modified: "toLowerCase ''Last-Modified'' = ''last-modified''"
  by code_simp

lemma ex_addFeed_empty:
  "addFeed ex_env ex_url ex_empty =
     \<lparr>db = \<lparr>feeds = [createFeedDocument ex_meta ex_url (Some ''Tue, 02 Jan 2024 00:00:00 GMT'')],
             articles = [createArticleDocument ex_article ex_url 5000]\<rparr>,
      called = 1, uncaught = None\<rparr>"
  by (simp add: addFeed_def requestAndParseFeed_def handleResponse_def ex_env_def ex_empty_def
      ex_response_def getLastModifiedFromResponseHeaders_def lower_Content_Type
      lower_Last_Modified getBufferAsUtf8Buffer_def saveOrUpdateFeedMeta_def
      saveFeedMeta_def saveOrUpdateArticle_def saveArticle_def io_ok_def)

lemma ex_addFeed_stored:
  "addFeed ex_env ex_url ex_store = \<lparr>db = ex_store, called = 0, uncaught = None\<rparr>"
  by (simp add: addFeed_def ex_env_def ex_store_def ex_feed_def ex_url_def)

lemma ex_addFeed_304:
  "addFeed ex_env_304 ex_url ex_empty = \<lparr>db = ex_empty, called = 0, uncaught = None\<rparr>"
  by (simp add: addFeed_def requestAndParseFeed_def handleResponse_def ex_env_304_def ex_env_def
      ex_empty_def ex_response_def)







lemma ex_new_york_threshold: "oldArticleDate ex_new_york 1710086400000 1 = 1710003600000"
  by (simp add: oldArticleDate_def LocalTime_def UTC_time_def msPerDay_def ex_new_york_def)

lemma array_form_is_read:
  "new_RegExp (searchTerm_source (''('' @ join_with ''|'' [''Baz'', ''foo''] @ '')'')) =
     Returns (Seq (Star Dot) (Seq (Plus (group_of (Bol # allowed_atoms)))
       (Seq (Alt (seqs (map Lit ''Baz'')) (seqs (map Lit ''foo'')))
         (Seq (Plus (group_of (allowed_atoms @ [Eol]))) (Seq (Star Dot) Eps)))))"
  by (simp add: new_RegExp_def searchTerm_source_def init_pstate_def
      allowedCharsBeforeAndAfter_def step_def quantify_def
      push_atom_def push_assertion_def open_group_def close_group_def next_alt_def
      close_alts_def escape_atom_def ascii_alnum_def brace_quantifier_def is_digit_def
      group_of_def allowed_atoms_def)

lemma array_form_matches:
  "rx_test (Seq (Star Dot) (Seq (Plus (group_of (Bol # allowed_atoms)))
       (Seq (Alt (seqs (map Lit ''Baz'')) (seqs (map Lit ''foo'')))
         (Seq (Plus (group_of (allowed_atoms @ [Eol]))) (Seq (Star Dot) Eps)))))
     ''Read Foo Bar''"
proof -
  let ?s = "''Read Foo Bar''"
  let ?G1 = "Plus (group_of (Bol # allowed_atoms))"
  let ?G2 = "Plus (group_of (allowed_atoms @ [Eol]))"
  let ?M = "Alt (seqs (map Lit ''Baz'')) (seqs (map Lit ''foo''))"
  have fl: "flat (map Lit ''foo'')" by (simp add: flat_def)
  have k: "kw_at (map Lit ''foo'') ?s 5"
    by (simp add: kw_at_def canonicalize_def)
  have e8: "rx_match (seqs []) ?s (5 + length (map Lit ''foo'')) 8" by simp
  have "rx_match (seqs (map Lit ''foo'' @ [])) ?s 5 8 =
      (kw_at (map Lit ''foo'') ?s 5 \<and> rx_match (seqs []) ?s (5 + length (map Lit ''foo'')) 8)"
    by (rule seqs_flat_append [OF fl]) simp
  with k e8 have "rx_match (seqs (map Lit ''foo'' @ [])) ?s 5 8" by blast
  then have m: "rx_match ?M ?s 5 8" by (simp only: rx_match.simps append_Nil2 simp_thms)
  have "delimiter (?s ! (5 - 1))" by (simp add: delimiter_def is_space_def)
  then have "\<exists>a\<le>5. rx_match ?G1 ?s a 5"
    by (intro plus_G1_intro) simp_all
  then obtain a where a: "a \<le> 5" and g1: "rx_match ?G1 ?s a 5" by blast
  have "delimiter (?s ! 8)" by (simp add: delimiter_def is_space_def)
  then have "\<exists>b\<ge>8. b \<le> length ?s \<and> rx_match ?G2 ?s 8 b"
    by (intro plus_G2_intro) simp_all
  then obtain b where b: "8 \<le> b" "b \<le> length ?s" and g2: "rx_match ?G2 ?s 8 b" by blast
  have s1: "rx_match (Star Dot) ?s a a" and s2: "rx_match (Star Dot) ?s b b"
    by (simp_all only: rx_match.simps iter_refl)
  have e: "rx_match Eps ?s b b" by simp
  have r4: "rx_match (Seq (Star Dot) Eps) ?s b b"
    by (rule seqI [OF s2 e order_refl order_refl])
  have r3: "rx_match (Seq ?G2 (Seq (Star Dot) Eps)) ?s 8 b"
    by (rule seqI [OF g2 r4 b(1) order_refl])
  have r2: "rx_match (Seq ?M (Seq ?G2 (Seq (Star Dot) Eps))) ?s 5 b"
    by (rule seqI [OF m r3 _ b(1)]) simp
  have ab: "a \<le> b" and fb: "5 \<le> b" using a b(1) by simp_all
  have r1: "rx_match (Seq ?G1 (Seq ?M (Seq ?G2 (Seq (Star Dot) Eps)))) ?s a b"
    by (rule seqI [OF g1 r2 a fb])
  have r0: "rx_match (Seq (Star Dot) (Seq ?G1 (Seq ?M (Seq ?G2 (Seq (Star Dot) Eps))))) ?s a b"
    by (rule seqI [OF s1 r1 order_refl ab])
  have al: "a \<le> length ?s" using ab b(2) by simp
  have "\<exists>i. 0 \<le> i \<and> i \<le> length ?s \<and> (\<exists>j. i \<le> j \<and> j \<le> length ?s \<and>
      rx_match (Seq (Star Dot) (Seq ?G1 (Seq ?M (Seq ?G2 (Seq (Star Dot) Eps))))) ?s i j)"
    using r0 al ab b(2) le0 [of a] by blast
  then show ?thesis
    unfolding rx_test_def bex_upt .
qed

lemma array_form_finds:
  "getArticlesByKeywordArray False [''Baz'', ''foo''] no_options [ex_read_foo_bar] =
     Returns (Some [ex_read_foo_bar])"
proof -
  have t: "title ex_read_foo_bar = Some ''Read Foo Bar''"
    by (simp add: ex_read_foo_bar_def)
  show ?thesis
    using array_form_matches
    by (simp add: getArticlesByKeywordArray_def getArticlesByKeyword_def
        createQueryForArticles_def array_form_is_read [simplified] executeArticleQuery_def
        query_exec_def criteria_match_def field_matches_def t no_options_def)
qed

lemma unbalanced_keyword_throws:
  "getArticlesByKeyword execErr ''a)'' opts arts = Throws ''SyntaxError''"
  by (simp add: getArticlesByKeyword_def createQueryForArticles_def new_RegExp_def
      searchTerm_source_def init_pstate_def
      allowedCharsBeforeAndAfter_def step_def quantify_def
      push_atom_def push_assertion_def open_group_def close_group_def next_alt_def
      close_alts_def escape_atom_def ascii_alnum_def brace_quantifier_def is_digit_def)

section \<open>The claims\<close>

text \<open>
  Claim C1: the feed update is applied only when every compared field, the revalidation
  token among them, differs between the stored and the received values. The call in
  \<^verbatim>\<open>saveOrUpdateFeedMeta\<close> hands the URL to \<^verbatim>\<open>updateFeedMeta\<close> where the token is
  expected. At the input below the stored token equals the token of the response, and the
  stored feed is overwritten all the same.
\<close>

theorem feed_updated_although_token_is_equal:
  "lastModified ex_feed = Some ''Mon, 01 Jan 2024 00:00:00 GMT'' \<and>
   feeds (saveOrUpdateFeedMeta io_ok ex_meta ex_url (Some ''Mon, 01 Jan 2024 00:00:00 GMT'')
            \<lparr>feeds = [ex_feed], articles = []\<rparr>) =
     [assignFeedFields ex_feed ex_meta (Some ex_url)] \<and>
   title (assignFeedFields ex_feed ex_meta (Some ex_url)) = Some ''New title'' \<and>
   title ex_feed = Some ''Old title''"
  by (simp add: ex_update_written) (simp add: ex_feed_def ex_meta_def assignFeedFields_def)

text \<open>
  Claim C2: for a stored article matched by guid and feed URL, the compared fields are
  overwritten exactly when every one of them differs, and none is overwritten when one
  of them is equal. The guid is one of them, and the match makes it equal: the stored
  article stays as it is, and the fourteen inequalities never hold together.
\<close>

theorem matched_article_is_left_as_stored:
  assumes "find_pos (\<lambda>d. guid d = guid a \<and> feed d = Some url) (articles s) = Some i"
  shows "saveOrUpdateArticle e a url s = s \<and>
    ((saveOrUpdateArticle e a url s \<noteq> s) =
     (title (articles s ! i) \<noteq> title a \<and>
      description (articles s ! i) \<noteq> description a \<and>
      link (articles s ! i) \<noteq> link a \<and>
      author (articles s ! i) \<noteq> author a \<and>
      guid (articles s ! i) \<noteq> guid a \<and>
      comments (articles s ! i) \<noteq> comments a \<and>
      o_title (image_obj (articles s ! i)) \<noteq> o_title (image_obj a) \<and>
      o_url (image_obj (articles s ! i)) \<noteq> o_url (image_obj a) \<and>
      JSON_stringify (categories (articles s ! i)) \<noteq> JSON_stringify (categories a) \<and>
      o_title (source (articles s ! i)) \<noteq> o_title (source a) \<and>
      o_url (source (articles s ! i)) \<noteq> o_url (source a) \<and>
      map e_url (enclosures (articles s ! i)) \<noteq> map e_url (enclosures a) \<and>
      map e_type (enclosures (articles s ! i)) \<noteq> map e_type (enclosures a) \<and>
      map e_length (enclosures (articles s ! i)) \<noteq> map e_length (enclosures a)))"
proof -
  from find_pos_Some [OF assms] have g: "guid (articles s ! i) = guid a" by simp
  then have "\<not> articleRequiresUpdate (articles s ! i) a"
    by (simp add: articleRequiresUpdate_def)
  then have "saveOrUpdateArticle e a url s = s"
    using assms by (simp add: saveOrUpdateArticle_def updateArticle_def)
  then show ?thesis using g by simp
qed

theorem matched_article_is_left_as_stored_witness:
  "find_pos (\<lambda>d. guid d = guid ex_article \<and> feed d = Some ex_url) (articles ex_store) = Some 0 \<and>
   saveOrUpdateArticle io_ok ex_article ex_url ex_store = ex_store \<and>
   title (articles ex_store ! 0) \<noteq> title ex_article"
proof -
  have h: "find_pos (\<lambda>d. guid d = guid ex_article \<and> feed d = Some ex_url) (articles ex_store) = Some 0"
    by (simp add: ex_store_def ex_articleDoc_def ex_article_def ex_url_def)
  show ?thesis
    using h matched_article_is_left_as_stored [OF h, of io_ok]
    by (simp add: ex_store_def ex_articleDoc_def ex_article_def)
qed

text \<open>
  Claim C3: when the update predicate holds, every compared field is overwritten and the
  stored revalidation token becomes the token of the response. At the input below the
  predicate holds for the token of the response, and the stored token becomes the URL of
  the feed.
\<close>

theorem stored_token_becomes_the_url:
  "feedRequiresUpdate ex_feed ex_meta (Some ''Tue, 02 Jan 2024 00:00:00 GMT'') \<and>
   map lastModified
     (feeds (saveOrUpdateFeedMeta io_ok ex_meta ex_url (Some ''Tue, 02 Jan 2024 00:00:00 GMT'')
               \<lparr>feeds = [ex_feed], articles = []\<rparr>)) =
     [Some ''http://example.org/feed'']"
proof -
  have "feedRequiresUpdate ex_feed ex_meta (Some ''Tue, 02 Jan 2024 00:00:00 GMT'')"
    using ex_categories_differ
    by (simp add: feedRequiresUpdate_def ex_feed_def ex_meta_def)
  then show ?thesis
    by (simp add: ex_update_written) (simp add: assignFeedFields_def ex_url_def)
qed

text \<open>
  Claim C4, as amended: for a whole number of days, removing the articles older than
  \<open>days\<close> days deletes exactly the articles whose field \<^verbatim>\<open>date\<close> (the date that the
  feed gives the article) is set and strictly earlier than a threshold; the other
  articles and the feeds stay, and \<open>savedAt\<close> plays no part. The threshold is the local
  time of now with the day of the month moved back by \<open>days\<close> and the time of day kept,
  read as a local time again; where local time is at the same offset from UTC at all
  times, that is \<open>days\<close> times 24 hours before now. When the storage call reports an
  error, nothing is deleted.
\<close>

theorem removeArticlesOlderThan_by_date:
  "(\<not> removeErr \<longrightarrow>
      articles (removeArticlesOlderThan tza removeErr now days s) =
        filter (\<lambda>a. case date a of None \<Rightarrow> True
                    | Some t \<Rightarrow> UTC_time tza (LocalTime tza now - days * 86400000) \<le> t)
          (articles s)) \<and>
   (removeErr \<longrightarrow> removeArticlesOlderThan tza removeErr now days s = s) \<and>
   feeds (removeArticlesOlderThan tza removeErr now days s) = feeds s \<and>
   ((\<forall>t u. tza t u = offset) \<longrightarrow>
      oldArticleDate tza now days = now - days * 86400000)"
  by (auto simp: removeArticlesOlderThan_def mongo_lt_def oldArticleDate_def msPerDay_def
      LocalTime_def UTC_time_def not_less intro!: filter_cong split: option.splits)

text \<open>
  In New York at noon of 10 March 2024, the day on which the clock was set forward, one
  day back is 23 hours back: an article dated 23 and a half hours before now is deleted,
  an article without a date stays, and on an error of the storage both stay.
\<close>

theorem removeArticlesOlderThan_by_date_witness:
  "articles (removeArticlesOlderThan ex_new_york False 1710086400000 1
      \<lparr>feeds = [ex_feed], articles = [ex_dated_23h30_before, ex_undated]\<rparr>) = [ex_undated] \<and>
   removeArticlesOlderThan ex_new_york True 1710086400000 1
      \<lparr>feeds = [ex_feed], articles = [ex_dated_23h30_before, ex_undated]\<rparr> =
      \<lparr>feeds = [ex_feed], articles = [ex_dated_23h30_before, ex_undated]\<rparr> \<and>
   feeds (removeArticlesOlderThan ex_new_york False 1710086400000 1
      \<lparr>feeds = [ex_feed], articles = [ex_dated_23h30_before, ex_undated]\<rparr>) = [ex_feed] \<and>
   (\<forall>t u. ex_utc t u = 0) \<and> oldArticleDate ex_utc 864000000 1 = 777600000"
  using removeArticlesOlderThan_by_date [of False ex_new_york 1710086400000 1
      "\<lparr>feeds = [ex_feed], articles = [ex_dated_23h30_before, ex_undated]\<rparr>" 0]
    removeArticlesOlderThan_by_date [of True ex_new_york 1710086400000 1
      "\<lparr>feeds = [ex_feed], articles = [ex_dated_23h30_before, ex_undated]\<rparr>" 0]
    removeArticlesOlderThan_by_date [of False ex_utc 864000000 1 ex_empty 0]
  by (simp add: ex_dated_23h30_before_def ex_undated_def ex_utc_def ex_new_york_def
      LocalTime_def UTC_time_def)

text \<open>
  Claim C4 as stated fails: an article saved long before the threshold stays when the
  feed dates it after the threshold, and an article saved now goes when the feed dates
  it before.
\<close>

theorem removal_goes_by_date_not_savedAt:
  "savedAt ex_saved_long_ago < oldArticleDate ex_utc 864000000 1 \<and>
   \<not> savedAt ex_saved_now < oldArticleDate ex_utc 864000000 1 \<and>
   articles (removeArticlesOlderThan ex_utc False 864000000 1
               \<lparr>feeds = [], articles = [ex_saved_long_ago, ex_saved_now]\<rparr>) =
     [ex_saved_long_ago]"
  by (simp add: removeArticlesOlderThan_def oldArticleDate_def msPerDay_def mongo_lt_def
      LocalTime_def UTC_time_def ex_utc_def ex_saved_long_ago_def ex_saved_now_def)




text \<open>
  Claim C6, as amended: when the detector reports UTF-8 the bytes are returned as they
  are; otherwise the result is the encoding of what the decoder returns, and what the
  decoder throws leaves the normalizer.
\<close>

theorem getBufferAsUtf8Buffer_cases:
  "(chardet_detect ev buffer = Some ''UTF-8'' \<longrightarrow> getBufferAsUtf8Buffer ev buffer = Inr buffer) \<and>
   (chardet_detect ev buffer \<noteq> Some ''UTF-8'' \<longrightarrow>
      (\<forall>text. iconv_decode ev buffer (chardet_detect ev buffer) = Inr text \<longrightarrow>
          getBufferAsUtf8Buffer ev buffer = Inr (iconv_encode ev text)) \<and>
      (\<forall>thrown. iconv_decode ev buffer (chardet_detect ev buffer) = Inl thrown \<longrightarrow>
          getBufferAsUtf8Buffer ev buffer = Inl thrown))"
  by (simp add: getBufferAsUtf8Buffer_def Let_def)

theorem getBufferAsUtf8Buffer_cases_witness:
  "chardet_detect ex_env ''abc'' = Some ''UTF-8'' \<and>
   getBufferAsUtf8Buffer ex_env ''abc'' = Inr ''abc'' \<and>
   chardet_detect ex_env_latin1 ''abc'' \<noteq> Some ''UTF-8'' \<and>
   iconv_decode ex_env_latin1 ''abc'' (chardet_detect ex_env_latin1 ''abc'') = Inr [97, 98, 99] \<and>
   getBufferAsUtf8Buffer ex_env_latin1 ''abc'' = Inr (iconv_encode ex_env_latin1 [97, 98, 99]) \<and>
   chardet_detect ex_env_unsupported ''abc'' \<noteq> Some ''UTF-8'' \<and>
   iconv_decode ex_env_unsupported ''abc'' (chardet_detect ex_env_unsupported ''abc'') =
     Inl ''Encoding not recognized'' \<and>
   getBufferAsUtf8Buffer ex_env_unsupported ''abc'' = Inl ''Encoding not recognized''"
  using getBufferAsUtf8Buffer_cases [of ex_env "''abc''"]
    getBufferAsUtf8Buffer_cases [of ex_env_latin1 "''abc''"]
    getBufferAsUtf8Buffer_cases [of ex_env_unsupported "''abc''"]
  by (simp add: ex_env_def ex_env_latin1_def ex_env_unsupported_def)

text \<open>
  Claim C6 as stated fails: with an encoding that the decoder does not know, the
  exception reaches the caller and the bytes are not returned.
\<close>

theorem decoder_exception_leaves_the_normalizer:
  "getBufferAsUtf8Buffer ex_env_unsupported ''abc'' = Inl ''Encoding not recognized'' \<and>
   getBufferAsUtf8Buffer ex_env_unsupported ''abc'' \<noteq> Inr ''abc''"
  by (simp add: getBufferAsUtf8Buffer_def ex_env_unsupported_def ex_env_def)

text \<open>
  Claim C7: adding a URL that is already stored creates no second feed and leaves the
  store as it is, and after any sequence of calls, one after the other, no two stored
  feeds have the same URL.
\<close>

theorem addFeed_keeps_one_feed_per_url:
  "(url \<in> fid ` set (feeds s) \<longrightarrow> db (addFeed ev url s) = s) \<and>
   (distinct (map fid (feeds s)) \<longrightarrow> distinct (map fid (feeds (addFeeds cs s)))) \<and>
   distinct (map fid (feeds (addFeeds cs \<lparr>feeds = [], articles = []\<rparr>)))"
  by (simp add: addFeed_stored addFeeds_distinct)

theorem addFeed_keeps_one_feed_per_url_witness:
  "ex_url \<in> fid ` set (feeds ex_store) \<and> db (addFeed ex_env ex_url ex_store) = ex_store \<and>
   distinct (map fid (feeds ex_store)) \<and>
   distinct (map fid (feeds (addFeeds [(ex_env, ex_url), (ex_env, ex_url)] ex_store))) \<and>
   map fid (feeds (addFeeds [(ex_env, ex_url), (ex_env, ex_url)] ex_empty)) = [ex_url]"
  using addFeed_keeps_one_feed_per_url
    [of ex_url ex_store ex_env "[(ex_env, ex_url), (ex_env, ex_url)]"]
  by (simp add: ex_addFeed_empty ex_addFeed_stored)
     (simp add: ex_store_def ex_feed_def ex_url_def addFeed_def ex_env_def createFeedDocument_def)

text \<open>
  Claim C8: a fetch cycle whose response has status 304 leaves every feed and every
  article as it is, and does not call the callback.
\<close>

theorem not_modified_changes_nothing:
  assumes "request ev (requestFor ev url s) = Inr resp" and "statusCode resp = 304"
  shows "requestAndParseFeed ev url s = \<lparr>db = s, called = 0, uncaught = None\<rparr> \<and>
         handleResponse ev url (Inr resp) s = \<lparr>db = s, called = 0, uncaught = None\<rparr>"
  using assms by (simp add: requestAndParseFeed_def handleResponse_def)

theorem not_modified_changes_nothing_witness:
  "request ex_env_304 (requestFor ex_env_304 ex_url ex_store) = Inr (ex_response\<lparr>statusCode := 304\<rparr>) \<and>
   statusCode (ex_response\<lparr>statusCode := 304\<rparr>) = 304 \<and>
   requestAndParseFeed ex_env_304 ex_url ex_store = \<lparr>db = ex_store, called = 0, uncaught = None\<rparr>"
proof -
  have h1: "request ex_env_304 (requestFor ex_env_304 ex_url ex_store) =
      Inr (ex_response\<lparr>statusCode := 304\<rparr>)"
    by (simp add: ex_env_304_def ex_env_def)
  have h2: "statusCode (ex_response\<lparr>statusCode := 304\<rparr>) = 304" by simp
  show ?thesis using h1 h2 not_modified_changes_nothing [OF h1 h2] by simp
qed

text \<open>
  Claim C9: \<open>savedAt\<close> is set when the article document is created, the assignments of
  an update leave it, after a fetch cycle or a call of \<^verbatim>\<open>addFeed\<close> every article that
  was stored before is at its place with the \<open>savedAt\<close> it had, and the removal by age
  keeps or deletes a document and changes none.
\<close>

theorem savedAt_is_set_once:
  "savedAt (createArticleDocument a url now) = now \<and>
   savedAt (assignArticleFields d a) = savedAt d \<and>
   prefix (map savedAt (articles s))
     (map savedAt (articles (db (requestAndParseFeed ev url s)))) \<and>
   prefix (map savedAt (articles s))
     (map savedAt (articles (db (addFeed ev url s)))) \<and>
   set (articles (removeArticlesOlderThan tza removeErr now days s)) \<subseteq> set (articles s)"
  by (simp add: createArticleDocument_def savedAt_assignArticleFields requestAndParseFeed_savedAt
      addFeed_def Let_def removeArticlesOlderThan_def)

theorem savedAt_is_set_once_witness:
  "savedAt (createArticleDocument ex_article ex_url 5000) = 5000 \<and>
   savedAt (assignArticleFields ex_articleDoc ex_article) = 1000 \<and>
   prefix [1000] (map savedAt (articles (db (requestAndParseFeed ex_env ex_url ex_store))))"
  using savedAt_is_set_once [of ex_article ex_url 5000 ex_articleDoc ex_store ex_env ex_utc False 1]
  by (simp add: ex_store_def ex_articleDoc_def)

text \<open>
  Claim C10: the callback of \<^verbatim>\<open>addFeed\<close> runs only when the URL was not stored, the
  response had status 200 and the parser reached its end; it does not run when the count
  fails, the feed exists, the transport fails or the status is not 200.
\<close>

theorem callback_only_after_end:
  "(0 < called (addFeed ev url s) \<longrightarrow>
      \<not> countErr ev \<and> url \<notin> fid ` set (feeds s) \<and>
      (\<exists>resp b. request ev (requestFor ev url s) = Inr resp \<and> statusCode resp = 200 \<and>
         getBufferAsUtf8Buffer ev (body resp) = Inr b \<and> End \<in> set (feedparser ev b))) \<and>
   (countErr ev \<or> url \<in> fid ` set (feeds s) \<or>
    (\<exists>err. request ev (requestFor ev url s) = Inl err) \<or>
    (\<exists>resp. request ev (requestFor ev url s) = Inr resp \<and> statusCode resp \<noteq> 200) \<longrightarrow>
      called (addFeed ev url s) = 0)"
proof -
  have "filter (\<lambda>x. x = End) xs \<noteq> [] \<Longrightarrow> End \<in> set xs" for xs :: "event list"
    by (induction xs) (auto split: if_splits)
  then show ?thesis
    unfolding called_addFeed called_handleResponse
    by (auto split: sum.splits if_splits)
qed

theorem callback_only_after_end_witness:
  "0 < called (addFeed ex_env ex_url ex_empty) \<and> \<not> countErr ex_env \<and>
   ex_url \<notin> fid ` set (feeds ex_empty) \<and>
   request ex_env (requestFor ex_env ex_url ex_empty) = Inr ex_response \<and>
   statusCode ex_response = 200 \<and>
   getBufferAsUtf8Buffer ex_env (body ex_response) = Inr ''<rss/>'' \<and>
   End \<in> set (feedparser ex_env ''<rss/>'') \<and>
   ex_url \<in> fid ` set (feeds ex_store) \<and> called (addFeed ex_env ex_url ex_store) = 0 \<and>
   request ex_env_304 (requestFor ex_env_304 ex_url ex_empty) =
     Inr (ex_response\<lparr>statusCode := 304\<rparr>) \<and>
   statusCode (ex_response\<lparr>statusCode := 304\<rparr>) \<noteq> 200 \<and>
   called (addFeed ex_env_304 ex_url ex_empty) = 0"
  using callback_only_after_end [of ex_env ex_url ex_empty]
    callback_only_after_end [of ex_env ex_url ex_store]
    callback_only_after_end [of ex_env_304 ex_url ex_empty]
  by (simp add: ex_addFeed_empty ex_addFeed_stored ex_addFeed_304)
     (simp add: ex_env_def ex_env_304_def ex_empty_def ex_store_def ex_feed_def ex_url_def
        ex_response_def getBufferAsUtf8Buffer_def)

end
